theory Spec2Isabelle
  imports Complex_Main "HOL-Library.Sublist"
begin

section \<open>JavaScript values read by the contact-form handler\<close>

text \<open>
  The handler of \<^verbatim>\<open>cdk/lambda/contact-form/index.js\<close> receives a JSON payload, reads
  properties of it, and interprets the JSON answer of the reCAPTCHA Enterprise service.
  A JavaScript value is modelled as \<open>json option\<close>, where \<open>None\<close> is \<^verbatim>\<open>undefined\<close>.
  Numbers are IEEE doubles in the source; the handler only compares them and tests them
  for truthiness, so a finite number is kept as the rational it denotes, next to the
  three special values.
\<close>

datatype js_error = TypeError | SyntaxError | ServiceError string

datatype jsnum = NaN | NegInf | Fin rat | PosInf

datatype json =
    JNull
  | JBool bool
  | JNum jsnum
  | JStr string
  | JArr "json list"
  | JObj "(string \<times> json) list"

type_synonym jsval = "json option"

text \<open>The relational operators \<^verbatim>\<open><\<close> and \<^verbatim>\<open>>=\<close> on numbers; any comparison with NaN is false.\<close>

fun num_lt :: "jsnum \<Rightarrow> jsnum \<Rightarrow> bool" where
  "num_lt NaN _ = False"
| "num_lt _ NaN = False"
| "num_lt NegInf NegInf = False"
| "num_lt NegInf _ = True"
| "num_lt (Fin a) NegInf = False"
| "num_lt (Fin a) (Fin b) = (a < b)"
| "num_lt (Fin a) PosInf = True"
| "num_lt PosInf _ = False"

definition num_ge :: "jsnum \<Rightarrow> jsnum \<Rightarrow> bool" where
  "num_ge a b = (a \<noteq> NaN \<and> b \<noteq> NaN \<and> \<not> num_lt a b)"

text \<open>Truthiness, as tested by \<^verbatim>\<open>if (x)\<close> and \<^verbatim>\<open>x || y\<close>.\<close>

fun truthy :: "jsval \<Rightarrow> bool" where
  "truthy None = False"
| "truthy (Some JNull) = False"
| "truthy (Some (JBool b)) = b"
| "truthy (Some (JNum n)) = (n \<noteq> NaN \<and> n \<noteq> Fin 0)"
| "truthy (Some (JStr s)) = (s \<noteq> [])"
| "truthy (Some (JArr xs)) = True"
| "truthy (Some (JObj kvs)) = True"

text \<open>
  Reading a named property. The handler reads only the names \<^verbatim>\<open>body\<close>,
  \<^verbatim>\<open>recaptchaToken\<close>, \<^verbatim>\<open>name\<close>, \<^verbatim>\<open>email\<close>, \<^verbatim>\<open>subject\<close>, \<^verbatim>\<open>message\<close>, \<^verbatim>\<open>error\<close>,
  \<^verbatim>\<open>tokenProperties\<close>, \<^verbatim>\<open>valid\<close>, \<^verbatim>\<open>action\<close>, \<^verbatim>\<open>riskAnalysis\<close> and \<^verbatim>\<open>score\<close>; none of
  them is an inherited or an index property, so on a boolean, number, string or array the
  read yields \<^verbatim>\<open>undefined\<close>. An object is an association list read with \<open>map_of\<close>.
  \<open>js_prop\<close> is the plain read \<^verbatim>\<open>v.k\<close>, which throws a TypeError on \<^verbatim>\<open>null\<close>;
  \<open>chain\<close> is the optional read \<^verbatim>\<open>v?.k\<close>.
\<close>

fun js_get :: "json \<Rightarrow> string \<Rightarrow> jsval" where
  "js_get (JObj kvs) k = map_of kvs k"
| "js_get _ k = None"

definition js_prop :: "json \<Rightarrow> string \<Rightarrow> js_error + jsval" where
  "js_prop v k = (if v = JNull then Inl TypeError else Inr (js_get v k))"

definition chain :: "jsval \<Rightarrow> string \<Rightarrow> jsval" where
  "chain v k = (case v of None \<Rightarrow> None | Some x \<Rightarrow> js_get x k)"

text \<open>
  The built-in operations of the JavaScript runtime that the handler calls are parameters
  of the model: \<^verbatim>\<open>JSON.parse\<close> (which throws a SyntaxError or returns a value),
  \<^verbatim>\<open>parseFloat\<close>, and the conversions of a non-empty string, array or object to a
  number (in \<^verbatim>\<open>score < threshold\<close>; the empty string converts to 0) and of a number,
  array or object to a string (in the concatenation that builds the mail text).
\<close>

record js_runtime =
  JSON_parse :: "string \<Rightarrow> js_error + json"
  parseFloat :: "string \<Rightarrow> jsnum"
  ToNumber :: "json \<Rightarrow> js_error + jsnum"
  ToString :: "json \<Rightarrow> js_error + string"

definition to_number :: "js_runtime \<Rightarrow> jsval \<Rightarrow> js_error + jsnum" where
  "to_number rt v =
     (case v of
        None \<Rightarrow> Inr NaN
      | Some JNull \<Rightarrow> Inr (Fin 0)
      | Some (JBool b) \<Rightarrow> Inr (Fin (if b then 1 else 0))
      | Some (JNum n) \<Rightarrow> Inr n
      | Some (JStr s) \<Rightarrow> if s = [] then Inr (Fin 0) else ToNumber rt (JStr s)
      | Some x \<Rightarrow> ToNumber rt x)"

definition js_lt :: "js_runtime \<Rightarrow> jsval \<Rightarrow> jsnum \<Rightarrow> js_error + bool" where
  "js_lt rt v t = (case to_number rt v of Inl e \<Rightarrow> Inl e | Inr n \<Rightarrow> Inr (num_lt n t))"

definition js_to_string :: "js_runtime \<Rightarrow> jsval \<Rightarrow> js_error + string" where
  "js_to_string rt v =
     (case v of
        None \<Rightarrow> Inr ''undefined''
      | Some JNull \<Rightarrow> Inr ''null''
      | Some (JBool b) \<Rightarrow> Inr (if b then ''true'' else ''false'')
      | Some (JStr s) \<Rightarrow> Inr s
      | Some x \<Rightarrow> ToString rt x)"

text \<open>A template literal renders an unset variable as the text \<^verbatim>\<open>undefined\<close>.\<close>

definition template_str :: "string option \<Rightarrow> string" where
  "template_str v = (case v of None \<Rightarrow> ''undefined'' | Some s \<Rightarrow> s)"

section \<open>Configuration (index.js, lines 8 to 17)\<close>

text \<open>The environment variables; \<open>None\<close> is an unset variable.\<close>

record env_config =
  SENDER_EMAIL :: "string option"
  RECEIVER_EMAIL :: "string option"
  EMAIL_SUBJECT :: "string option"
  RECAPTCHA_API_KEY_SECRET_NAME :: "string option"
  RECAPTCHA_PROJECT_ID :: "string option"
  RECAPTCHA_SITE_KEY :: "string option"
  RECAPTCHA_SCORE_THRESHOLD_ENV :: "string option"

text \<open>\<^verbatim>\<open>process.env.X || d\<close>: an unset or empty variable gives the default.\<close>

definition env_or :: "string option \<Rightarrow> string \<Rightarrow> string" where
  "env_or v d = (case v of None \<Rightarrow> d | Some s \<Rightarrow> if s = [] then d else s)"

definition SUBJECT :: "env_config \<Rightarrow> string" where
  "SUBJECT cfg = env_or (EMAIL_SUBJECT cfg) ''Contact Form Submission''"

definition RECAPTCHA_SCORE_THRESHOLD :: "js_runtime \<Rightarrow> env_config \<Rightarrow> jsnum" where
  "RECAPTCHA_SCORE_THRESHOLD rt cfg =
     parseFloat rt (env_or (RECAPTCHA_SCORE_THRESHOLD_ENV cfg) ''0.5'')"

section \<open>The three collaborators and the log of calls\<close>

text \<open>
  The assessment request of \<^verbatim>\<open>verifyRecaptcha\<close>: the path with project and key, and the
  three fields of the JSON body (host, port, method and headers are constants).
\<close>

record assessment_request =
  req_path :: string
  req_token :: jsval
  req_siteKey :: "string option"
  req_expectedAction :: string

record email_params =
  ToAddresses :: "string option list"
  Text_Data :: string
  Subject_Data :: string
  Source :: "string option"

text \<open>
  The two SDK calls either reject or answer: the secret store with an optional
  \<^verbatim>\<open>SecretString\<close>, the mail service with nothing the handler reads.

  The HTTPS request of lines 117 to 149 has three outcomes. The request emits \<^verbatim>\<open>error\<close>
  (line 147 rejects); or the response emits \<^verbatim>\<open>end\<close> with the text received (line 120);
  or the connection is lost after the response has started, where the response emits only
  \<^verbatim>\<open>aborted\<close> and \<^verbatim>\<open>close\<close>, for which no listener is registered, and there is no timeout:
  then the promise of \<^verbatim>\<open>verifyRecaptcha\<close> is never settled.
\<close>

datatype https_outcome = RequestError js_error | ResponseEnd string | NeverSettles

record services =
  secrets_send :: "string option \<Rightarrow> js_error + string option"
  https_request :: "assessment_request \<Rightarrow> https_outcome"
  ses_send :: "email_params \<Rightarrow> js_error + unit"

datatype call =
    SecretsCall "string option" "js_error + string option"
  | VerifyCall assessment_request https_outcome
  | EmailCall email_params "js_error + unit"

fun is_secrets_call :: "call \<Rightarrow> bool" where
  "is_secrets_call (SecretsCall _ _) = True"
| "is_secrets_call _ = False"

fun is_verify_call :: "call \<Rightarrow> bool" where
  "is_verify_call (VerifyCall _ _) = True"
| "is_verify_call _ = False"

fun is_email_call :: "call \<Rightarrow> bool" where
  "is_email_call (EmailCall _ _) = True"
| "is_email_call _ = False"

fun never_settles :: "call \<Rightarrow> bool" where
  "never_settles (VerifyCall _ NeverSettles) = True"
| "never_settles _ = False"

section \<open>The credential cache (index.js, lines 19 to 30)\<close>

text \<open>
  \<^verbatim>\<open>cachedApiKey\<close> starts as \<^verbatim>\<open>null\<close> and later holds \<^verbatim>\<open>response.SecretString\<close>;
  \<open>None\<close> stands for \<^verbatim>\<open>null\<close> and \<^verbatim>\<open>undefined\<close>. The test \<^verbatim>\<open>if (cachedApiKey)\<close> is
  truthiness: a non-empty string.
\<close>

definition cached :: "string option \<Rightarrow> bool" where
  "cached k = (case k of None \<Rightarrow> False | Some s \<Rightarrow> s \<noteq> [])"

definition getRecaptchaApiKey ::
  "env_config \<Rightarrow> services \<Rightarrow> string option \<Rightarrow> (js_error + string option) \<times> string option \<times> call list" where
  "getRecaptchaApiKey cfg sv cachedApiKey =
     (if cached cachedApiKey then (Inr cachedApiKey, cachedApiKey, [])
      else
        (let secretId = RECAPTCHA_API_KEY_SECRET_NAME cfg;
             response = secrets_send sv secretId
         in case response of
              Inl e \<Rightarrow> (Inl e, cachedApiKey, [SecretsCall secretId response])
            | Inr secretString \<Rightarrow> (Inr secretString, secretString, [SecretsCall secretId response])))"

section \<open>Verification (index.js, lines 96 to 151)\<close>

record recaptcha_result =
  success :: bool
  reason :: jsval
  score :: jsval

text \<open>Lines 130 to 132: the three values computed from a response without error.\<close>

definition tokenValid :: "json \<Rightarrow> bool" where
  "tokenValid response = (chain (js_get response ''tokenProperties'') ''valid'' = Some (JBool True))"

definition actionMatch :: "json \<Rightarrow> string \<Rightarrow> bool" where
  "actionMatch response expectedAction =
     (chain (js_get response ''tokenProperties'') ''action'' = Some (JStr expectedAction))"

definition response_score :: "json \<Rightarrow> json" where
  "response_score response =
     (let s = chain (js_get response ''riskAnalysis'') ''score''
      in case s of None \<Rightarrow> JNum (Fin 0) | Some x \<Rightarrow> if truthy s then x else JNum (Fin 0))"

text \<open>
  Lines 125 to 140, the body of the \<^verbatim>\<open>try\<close> after \<^verbatim>\<open>JSON.parse\<close>: reading
  \<^verbatim>\<open>response.error\<close> throws when the response is \<^verbatim>\<open>null\<close>, and the \<^verbatim>\<open>catch\<close> of line 141
  rejects the promise with that error.
\<close>

definition interpret_response :: "json \<Rightarrow> string \<Rightarrow> js_error + recaptcha_result" where
  "interpret_response response expectedAction =
     (case js_prop response ''error'' of
        Inl e \<Rightarrow> Inl e
      | Inr err \<Rightarrow>
          if truthy err
          then Inr \<lparr>success = False, reason = chain err ''message'', score = None\<rparr>
          else if \<not> tokenValid response
          then Inr \<lparr>success = False, reason = Some (JStr ''Invalid token''), score = Some (JNum (Fin 0))\<rparr>
          else if \<not> actionMatch response expectedAction
          then Inr \<lparr>success = False, reason = Some (JStr ''Action mismatch''),
                    score = Some (response_score response)\<rparr>
          else Inr \<lparr>success = True, reason = None, score = Some (response_score response)\<rparr>)"

text \<open>
  Lines 98 to 115: the request, with the path built by a template literal and the three
  fields of the body.
\<close>

definition assessment :: "env_config \<Rightarrow> jsval \<Rightarrow> string \<Rightarrow> string option \<Rightarrow> assessment_request" where
  "assessment cfg token expectedAction apiKey =
     \<lparr>req_path = ''/v1/projects/'' @ template_str (RECAPTCHA_PROJECT_ID cfg)
                   @ ''/assessments?key='' @ template_str apiKey,
      req_token = token,
      req_siteKey = RECAPTCHA_SITE_KEY cfg,
      req_expectedAction = expectedAction\<rparr>"

text \<open>The promise of \<^verbatim>\<open>verifyRecaptcha\<close>: \<open>None\<close> when it is never settled.\<close>

definition verifyRecaptcha ::
  "js_runtime \<Rightarrow> env_config \<Rightarrow> services \<Rightarrow> jsval \<Rightarrow> string \<Rightarrow> string option
     \<Rightarrow> (js_error + recaptcha_result) option \<times> call list" where
  "verifyRecaptcha rt cfg sv token expectedAction apiKey =
     (let req = assessment cfg token expectedAction apiKey;
          answer = https_request sv req
      in (case answer of
            RequestError e \<Rightarrow> Some (Inl e)
          | ResponseEnd data \<Rightarrow>
              (case JSON_parse rt data of
                 Inl e \<Rightarrow> Some (Inl e)
               | Inr response \<Rightarrow> Some (interpret_response response expectedAction))
          | NeverSettles \<Rightarrow> None,
          [VerifyCall req answer]))"

section \<open>Sending the mail (index.js, lines 153 to 175)\<close>

definition newline2 :: string where
  "newline2 = [CHR 0x0A, CHR 0x0A]"

definition mail_text :: "string \<Rightarrow> string \<Rightarrow> string \<Rightarrow> string \<Rightarrow> string" where
  "mail_text n e s m =
     ''From: '' @ n @ newline2 @ ''Email: '' @ e @ newline2 @ ''Subject: '' @ s
       @ newline2 @ ''Message: '' @ m"

text \<open>
  The concatenation converts the four properties from left to right; a failing property
  read or conversion rejects the promise of the \<^verbatim>\<open>async\<close> function before any call.
\<close>

definition field_text :: "js_runtime \<Rightarrow> json \<Rightarrow> string \<Rightarrow> js_error + string" where
  "field_text rt event k =
     (case js_prop event k of Inl e \<Rightarrow> Inl e | Inr v \<Rightarrow> js_to_string rt v)"

definition mail :: "env_config \<Rightarrow> string \<Rightarrow> email_params" where
  "mail cfg text =
     \<lparr>ToAddresses = [RECEIVER_EMAIL cfg], Text_Data = text, Subject_Data = SUBJECT cfg,
      Source = SENDER_EMAIL cfg\<rparr>"

definition sendEmail ::
  "js_runtime \<Rightarrow> env_config \<Rightarrow> services \<Rightarrow> json \<Rightarrow> (js_error + unit) \<times> call list" where
  "sendEmail rt cfg sv event =
     (case field_text rt event ''name'' of
        Inl e \<Rightarrow> (Inl e, [])
      | Inr n \<Rightarrow>
     (case field_text rt event ''email'' of
        Inl e \<Rightarrow> (Inl e, [])
      | Inr em \<Rightarrow>
     (case field_text rt event ''subject'' of
        Inl e \<Rightarrow> (Inl e, [])
      | Inr s \<Rightarrow>
     (case field_text rt event ''message'' of
        Inl e \<Rightarrow> (Inl e, [])
      | Inr m \<Rightarrow>
          (let params = mail cfg (mail_text n em s m);
               answer = ses_send sv params
           in (answer, [EmailCall params answer]))))))"

section \<open>The handler (index.js, lines 32 to 94)\<close>

record response =
  statusCode :: nat
  headers :: "(string \<times> string) list"
  body :: string

text \<open>
  The two bodies that \<^verbatim>\<open>JSON.stringify\<close> produces for \<^verbatim>\<open>{ result: 'Success' }\<close> and for
  \<^verbatim>\<open>{ result: 'Failed', reason: r }\<close>, where \<open>r\<close> is one of the four literal reasons of the
  handler (letters and blanks only, so nothing is escaped).
\<close>

definition success_body :: string where
  \<open>success_body = ''{"result":"Success"}''\<close>

definition failed_body :: "string \<Rightarrow> string" where
  \<open>failed_body r = ''{"result":"Failed","reason":"'' @ r @ ''"}''\<close>

definition json_headers :: "(string \<times> string) list" where
  "json_headers = [(''Content-Type'', ''application/json'')]"

definition succeeded :: response where
  "succeeded = \<lparr>statusCode = 200, headers = json_headers, body = success_body\<rparr>"

definition failed :: "nat \<Rightarrow> string \<Rightarrow> response" where
  "failed code r = \<lparr>statusCode = code, headers = json_headers, body = failed_body r\<rparr>"

text \<open>
  Lines 36 to 41. \<^verbatim>\<open>event.body\<close> throws on a \<^verbatim>\<open>null\<close> event, and \<^verbatim>\<open>JSON.parse\<close> may
  throw; both are outside the \<^verbatim>\<open>try\<close> blocks.
\<close>

definition parse_body :: "js_runtime \<Rightarrow> json \<Rightarrow> js_error + json" where
  "parse_body rt event =
     (case js_prop event ''body'' of
        Inl e \<Rightarrow> Inl e
      | Inr b \<Rightarrow>
          (case b of
             Some (JStr s) \<Rightarrow> JSON_parse rt s
           | Some x \<Rightarrow> if truthy b then Inr x else Inr event
           | None \<Rightarrow> Inr event))"

text \<open>
  Lines 44 to 75, the first \<^verbatim>\<open>try\<close>: \<open>Some (Inl r)\<close> is an early \<^verbatim>\<open>return r\<close>,
  \<open>Some (Inr ())\<close> falls through to the mail, and \<open>None\<close> is an \<^verbatim>\<open>await\<close> that never
  resumes. The key is fetched before the argument \<^verbatim>\<open>body.recaptchaToken\<close> is read, and
  every exception ends in the \<^verbatim>\<open>catch\<close> of line 68.
\<close>

definition recaptcha_stage ::
  "js_runtime \<Rightarrow> env_config \<Rightarrow> services \<Rightarrow> string option \<Rightarrow> json
     \<Rightarrow> (response + unit) option \<times> string option \<times> call list" where
  "recaptcha_stage rt cfg sv cachedApiKey sub =
     (case getRecaptchaApiKey cfg sv cachedApiKey of
        (Inl e, cache1, c1) \<Rightarrow> (Some (Inl (failed 500 ''reCAPTCHA service error'')), cache1, c1)
      | (Inr apiKey, cache1, c1) \<Rightarrow>
     (case js_prop sub ''recaptchaToken'' of
        Inl e \<Rightarrow> (Some (Inl (failed 500 ''reCAPTCHA service error'')), cache1, c1)
      | Inr token \<Rightarrow>
     (case verifyRecaptcha rt cfg sv token ''contact_submit'' apiKey of
        (None, c2) \<Rightarrow> (None, cache1, c1 @ c2)
      | (Some (Inl e), c2) \<Rightarrow>
          (Some (Inl (failed 500 ''reCAPTCHA service error'')), cache1, c1 @ c2)
      | (Some (Inr recaptchaResult), c2) \<Rightarrow>
          if \<not> success recaptchaResult
          then (Some (Inl (failed 400 ''reCAPTCHA verification failed'')), cache1, c1 @ c2)
          else
            (case js_lt rt (score recaptchaResult) (RECAPTCHA_SCORE_THRESHOLD rt cfg) of
               Inl e \<Rightarrow> (Some (Inl (failed 500 ''reCAPTCHA service error'')), cache1, c1 @ c2)
             | Inr low \<Rightarrow>
                 if low then (Some (Inl (failed 400 ''Submission blocked'')), cache1, c1 @ c2)
                 else (Some (Inr ()), cache1, c1 @ c2)))))"

text \<open>Lines 77 to 93, the second \<^verbatim>\<open>try\<close>.\<close>

definition email_stage ::
  "js_runtime \<Rightarrow> env_config \<Rightarrow> services \<Rightarrow> json \<Rightarrow> response \<times> call list" where
  "email_stage rt cfg sv sub =
     (case sendEmail rt cfg sv sub of
        (Inl e, c3) \<Rightarrow> (failed 500 ''Email service error'', c3)
      | (Inr u, c3) \<Rightarrow> (succeeded, c3))"

text \<open>
  One invocation: the outcome, the cache afterwards and the calls made, in order. The
  outcome is \<open>Some (Inr r)\<close> when the handler returns \<open>r\<close>, \<open>Some (Inl e)\<close> when it
  throws \<open>e\<close>, and \<open>None\<close> when it never returns.
\<close>

type_synonym run = "(js_error + response) option \<times> string option \<times> call list"

definition handler ::
  "js_runtime \<Rightarrow> env_config \<Rightarrow> services \<Rightarrow> string option \<Rightarrow> json \<Rightarrow> run" where
  "handler rt cfg sv cachedApiKey event =
     (case parse_body rt event of
        Inl e \<Rightarrow> (Some (Inl e), cachedApiKey, [])
      | Inr sub \<Rightarrow>
          (case recaptcha_stage rt cfg sv cachedApiKey sub of
             (None, cache1, c) \<Rightarrow> (None, cache1, c)
           | (Some (Inl r), cache1, c) \<Rightarrow> (Some (Inr r), cache1, c)
           | (Some (Inr u), cache1, c) \<Rightarrow>
               (case email_stage rt cfg sv sub of
                  (r, c3) \<Rightarrow> (Some (Inr r), cache1, c @ c3))))"

definition outcome :: "run \<Rightarrow> (js_error + response) option" where
  "outcome run = fst run"

definition cache_after :: "run \<Rightarrow> string option" where
  "cache_after run = fst (snd run)"

definition calls :: "run \<Rightarrow> call list" where
  "calls run = snd (snd run)"

section \<open>The response contract and repeated invocations\<close>

text \<open>
  The response contract, written out: the header, and either status 200 with the success
  body or status 400 or 500 with a failure body that carries one of four reasons.
\<close>

definition reasons :: "string list" where
  "reasons = [''reCAPTCHA verification failed'', ''Submission blocked'',
              ''reCAPTCHA service error'', ''Email service error'']"

definition response_contract :: "response \<Rightarrow> bool" where
  \<open>response_contract r =
     (headers r = [(''Content-Type'', ''application/json'')] \<and>
      (statusCode r = 200 \<and> body r = ''{"result":"Success"}'' \<or>
       (statusCode r = 400 \<or> statusCode r = 500) \<and>
       list_ex (\<lambda>why. body r = ''{"result":"Failed","reason":"'' @ why @ ''"}'') reasons))\<close>

definition returns_response :: "(js_error + response) option \<Rightarrow> bool" where
  "returns_response out =
     (case out of None \<Rightarrow> False | Some (Inl e) \<Rightarrow> False | Some (Inr r) \<Rightarrow> response_contract r)"



section \<open>Sample payloads, answers and collaborators\<close>

text \<open>
  Concrete inputs at which the theorems below are instantiated. The sample runtime
  agrees with \<^verbatim>\<open>JSON.parse\<close> and \<^verbatim>\<open>parseFloat\<close> on the texts used here; any other
  text is rejected with a SyntaxError, as the text \<^verbatim>\<open>not json\<close> is. The scores 0.9 and
  0.3 stand for the doubles nearest to them, which compare with 0.5 as they do.
\<close>

definition sample_submission :: json where
  "sample_submission =
     JObj [(''name'', JStr ''Ada''), (''email'', JStr ''ada@example.org''),
           (''subject'', JStr ''Hello''), (''message'', JStr ''Good morning''),
           (''recaptchaToken'', JStr ''tok-1'')]"

definition sample_submission_text :: string where
  \<open>sample_submission_text =
     ''{"name":"Ada","email":"ada@example.org","subject":"Hello","message":"Good morning","recaptchaToken":"tok-1"}''\<close>

definition token_properties :: "bool \<Rightarrow> string \<Rightarrow> string \<times> json" where
  "token_properties v a = (''tokenProperties'', JObj [(''valid'', JBool v), (''action'', JStr a)])"

definition risk_analysis :: "rat \<Rightarrow> string \<times> json" where
  "risk_analysis q = (''riskAnalysis'', JObj [(''score'', JNum (Fin q))])"

definition passing_answer :: json where
  "passing_answer = JObj [token_properties True ''contact_submit'', risk_analysis (9 / 10)]"

definition passing_text :: string where
  \<open>passing_text =
     ''{"tokenProperties":{"valid":true,"action":"contact_submit"},"riskAnalysis":{"score":0.9}}''\<close>

definition invalid_answer :: json where
  "invalid_answer = JObj [token_properties False ''contact_submit'', risk_analysis (9 / 10)]"

definition invalid_text :: string where
  \<open>invalid_text =
     ''{"tokenProperties":{"valid":false,"action":"contact_submit"},"riskAnalysis":{"score":0.9}}''\<close>

definition low_answer :: json where
  "low_answer = JObj [token_properties True ''contact_submit'', risk_analysis (3 / 10)]"

definition low_text :: string where
  \<open>low_text =
     ''{"tokenProperties":{"valid":true,"action":"contact_submit"},"riskAnalysis":{"score":0.3}}''\<close>

definition mismatch_answer :: json where
  "mismatch_answer = JObj [token_properties True ''login'', risk_analysis (9 / 10)]"

definition mismatch_text :: string where
  \<open>mismatch_text =
     ''{"tokenProperties":{"valid":true,"action":"login"},"riskAnalysis":{"score":0.9}}''\<close>

definition error_answer :: json where
  "error_answer =
     JObj [(''error'', JObj [(''code'', JNum (Fin 400)), (''message'', JStr ''API key not valid'')]),
           token_properties True ''contact_submit'', risk_analysis (9 / 10)]"

definition error_text :: string where
  \<open>error_text =
     ''{"error":{"code":400,"message":"API key not valid"},"tokenProperties":{"valid":true,"action":"contact_submit"},"riskAnalysis":{"score":0.9}}''\<close>

definition string_score_answer :: json where
  "string_score_answer =
     JObj [token_properties True ''contact_submit'',
           (''riskAnalysis'', JObj [(''score'', JStr ''0.9'')])]"

definition string_score_text :: string where
  \<open>string_score_text =
     ''{"tokenProperties":{"valid":true,"action":"contact_submit"},"riskAnalysis":{"score":"0.9"}}''\<close>

definition scoreless_answer :: json where
  "scoreless_answer = JObj [token_properties True ''contact_submit'']"

definition scoreless_text :: string where
  \<open>scoreless_text = ''{"tokenProperties":{"valid":true,"action":"contact_submit"}}''\<close>

definition sample_JSON_parse :: "string \<Rightarrow> js_error + json" where
  "sample_JSON_parse s =
     (case map_of [(sample_submission_text, sample_submission),
                   (passing_text, passing_answer),
                   (invalid_text, invalid_answer),
                   (low_text, low_answer),
                   (scoreless_text, scoreless_answer),
                   (mismatch_text, mismatch_answer),
                   (error_text, error_answer),
                   (string_score_text, string_score_answer),
                   (''null'', JNull)] s of
        None \<Rightarrow> Inl SyntaxError
      | Some v \<Rightarrow> Inr v)"

definition sample_parseFloat :: "string \<Rightarrow> jsnum" where
  "sample_parseFloat s =
     (if s = ''0.5'' then Fin (1 / 2) else if s = ''0.95'' then Fin (19 / 20) else NaN)"

definition sample_ToNumber :: "json \<Rightarrow> js_error + jsnum" where
  "sample_ToNumber v = (if v = JStr ''0.9'' then Inr (Fin (9 / 10)) else Inr NaN)"

text \<open>
  An object whose own \<^verbatim>\<open>toString\<close> is \<^verbatim>\<open>null\<close> cannot be converted to a string: the
  concatenation throws a TypeError.
\<close>

definition sample_ToString :: "json \<Rightarrow> js_error + string" where
  "sample_ToString v =
     (if v = JObj [(''toString'', JNull)] then Inl TypeError else Inr ''[object Object]'')"

definition sample_runtime :: js_runtime where
  "sample_runtime =
     \<lparr>JSON_parse = sample_JSON_parse, parseFloat = sample_parseFloat,
      ToNumber = sample_ToNumber, ToString = sample_ToString\<rparr>"

definition sample_config :: env_config where
  "sample_config =
     \<lparr>SENDER_EMAIL = Some ''site@example.org'', RECEIVER_EMAIL = Some ''owner@example.org'',
      EMAIL_SUBJECT = None, RECAPTCHA_API_KEY_SECRET_NAME = Some ''recaptcha/key'',
      RECAPTCHA_PROJECT_ID = Some ''demo-project'', RECAPTCHA_SITE_KEY = Some ''site-key'',
      RECAPTCHA_SCORE_THRESHOLD_ENV = None\<rparr>"

definition strict_config :: env_config where
  "strict_config = sample_config\<lparr>RECAPTCHA_SCORE_THRESHOLD_ENV := Some ''0.95''\<rparr>"

text \<open>
  Collaborators that all work, the verification service answering with a given text; and
  the same with the mail service failing, the secret store failing, the secret store
  answering without \<^verbatim>\<open>SecretString\<close> (a binary secret), the HTTPS request emitting
  \<^verbatim>\<open>error\<close>, and the connection lost after the response has started.
\<close>

definition answering :: "string \<Rightarrow> services" where
  "answering text =
     \<lparr>secrets_send = (\<lambda>sid. Inr (Some ''api-key'')),
      https_request = (\<lambda>req. ResponseEnd text),
      ses_send = (\<lambda>params. Inr ())\<rparr>"

definition mail_down :: "string \<Rightarrow> services" where
  "mail_down text = (answering text)\<lparr>ses_send := (\<lambda>params. Inl (ServiceError ''ses''))\<rparr>"

definition secrets_down :: services where
  "secrets_down =
     (answering passing_text)\<lparr>secrets_send := (\<lambda>sid. Inl (ServiceError ''secretsmanager''))\<rparr>"

definition binary_secret :: services where
  "binary_secret = (answering passing_text)\<lparr>secrets_send := (\<lambda>sid. Inr None)\<rparr>"

definition transport_down :: services where
  "transport_down =
     (answering passing_text)\<lparr>https_request := (\<lambda>req. RequestError (ServiceError ''ECONNRESET''))\<rparr>"

definition response_aborted :: services where
  "response_aborted = (answering passing_text)\<lparr>https_request := (\<lambda>req. NeverSettles)\<rparr>"

definition sample_request :: assessment_request where
  "sample_request =
     assessment sample_config (Some (JStr ''tok-1'')) ''contact_submit'' (Some ''api-key'')"

definition sample_mail :: email_params where
  "sample_mail =
     mail sample_config (mail_text ''Ada'' ''ada@example.org'' ''Hello'' ''Good morning'')"

definition keyless_request :: assessment_request where
  "keyless_request =
     assessment sample_config (Some (JStr ''tok-1'')) ''contact_submit'' None"

definition opaque_submission :: json where
  "opaque_submission =
     JObj [(''name'', JObj [(''toString'', JNull)]), (''email'', JStr ''ada@example.org''),
           (''subject'', JStr ''Hello''), (''message'', JStr ''Good morning''),
           (''recaptchaToken'', JStr ''tok-1'')]"

definition bare_submission :: json where
  "bare_submission = JObj [(''recaptchaToken'', JStr ''tok-1'')]"

definition bare_mail :: email_params where
  "bare_mail =
     mail sample_config (mail_text ''undefined'' ''undefined'' ''undefined'' ''undefined'')"

definition string_envelope :: json where
  "string_envelope = JObj [(''body'', JStr sample_submission_text)]"

definition object_envelope :: json where
  "object_envelope = JObj [(''body'', sample_submission)]"

section \<open>Facts about the stages of a run\<close>


lemma getRecaptchaApiKey_cold:
  "\<not> cached c \<Longrightarrow>
   getRecaptchaApiKey cfg sv c =
     (let sid = RECAPTCHA_API_KEY_SECRET_NAME cfg; ans = secrets_send sv sid
      in (ans, (case ans of Inl e \<Rightarrow> c | Inr k \<Rightarrow> k), [SecretsCall sid ans]))"
  by (simp add: getRecaptchaApiKey_def Let_def split: sum.splits)

lemma getRecaptchaApiKey_calls:
  "x \<in> set (snd (snd (getRecaptchaApiKey cfg sv c))) \<Longrightarrow> is_secrets_call x"
  by (auto simp: getRecaptchaApiKey_def Let_def split: if_splits sum.splits)

lemma key_calls_filter:
  "getRecaptchaApiKey cfg sv c = (k, c1, cs) \<Longrightarrow>
   filter is_email_call cs = [] \<and> filter is_verify_call cs = [] \<and> filter never_settles cs = []"
  by (auto simp: getRecaptchaApiKey_def Let_def split: if_splits sum.splits)

lemma sendEmail_calls:
  "x \<in> set (snd (sendEmail rt cfg sv sub)) \<Longrightarrow> is_email_call x"
  by (auto simp: sendEmail_def Let_def split: sum.splits)

lemma email_stage_calls:
  "x \<in> set (snd (email_stage rt cfg sv sub)) \<Longrightarrow> is_email_call x"
  using sendEmail_calls [of x rt cfg sv sub]
  by (auto simp: email_stage_def split: prod.splits sum.splits)

lemma recaptcha_stage_calls:
  "x \<in> set (snd (snd (recaptcha_stage rt cfg sv c sub))) \<Longrightarrow> \<not> is_email_call x"
  using getRecaptchaApiKey_calls [of x cfg sv c]
  by (cases "getRecaptchaApiKey cfg sv c"; cases x)
     (auto simp: recaptcha_stage_def verifyRecaptcha_def Let_def
           split: sum.splits if_splits prod.splits option.splits https_outcome.splits)

text \<open>The responses of the handler, written out.\<close>

lemma responses:
  \<open>succeeded =
     \<lparr>statusCode = 200, headers = [(''Content-Type'', ''application/json'')],
      body = ''{"result":"Success"}''\<rparr>\<close>
  \<open>failed 400 ''reCAPTCHA verification failed'' =
     \<lparr>statusCode = 400, headers = [(''Content-Type'', ''application/json'')],
      body = ''{"result":"Failed","reason":"reCAPTCHA verification failed"}''\<rparr>\<close>
  \<open>failed 400 ''Submission blocked'' =
     \<lparr>statusCode = 400, headers = [(''Content-Type'', ''application/json'')],
      body = ''{"result":"Failed","reason":"Submission blocked"}''\<rparr>\<close>
  \<open>failed 500 ''reCAPTCHA service error'' =
     \<lparr>statusCode = 500, headers = [(''Content-Type'', ''application/json'')],
      body = ''{"result":"Failed","reason":"reCAPTCHA service error"}''\<rparr>\<close>
  \<open>failed 500 ''Email service error'' =
     \<lparr>statusCode = 500, headers = [(''Content-Type'', ''application/json'')],
      body = ''{"result":"Failed","reason":"Email service error"}''\<rparr>\<close>
  by (simp_all add: succeeded_def failed_def success_body_def failed_body_def json_headers_def)

lemma threshold_text:
  "RECAPTCHA_SCORE_THRESHOLD rt cfg =
     parseFloat rt (case RECAPTCHA_SCORE_THRESHOLD_ENV cfg of
                      None \<Rightarrow> ''0.5'' | Some t \<Rightarrow> if t = [] then ''0.5'' else t)"
  by (simp add: RECAPTCHA_SCORE_THRESHOLD_def env_or_def)

text \<open>What a run that called the verification service has done before.\<close>

lemma verify_call_run:
  assumes "VerifyCall req ans \<in> set (calls (handler rt cfg sv c event))"
  shows "\<exists>sub key c1 cs tok.
           parse_body rt event = Inr sub \<and>
           getRecaptchaApiKey cfg sv c = (Inr key, c1, cs) \<and>
           js_prop sub ''recaptchaToken'' = Inr tok \<and>
           req = assessment cfg tok ''contact_submit'' key \<and>
           ans = https_request sv req"
proof (cases "parse_body rt event")
  case (Inl e)
  with assms show ?thesis by (simp add: handler_def calls_def)
next
  case (Inr sub)
  obtain kres c1 cs where k: "getRecaptchaApiKey cfg sv c = (kres, c1, cs)"
    by (cases "getRecaptchaApiKey cfg sv c") auto
  have nov: "VerifyCall req ans \<notin> set cs"
    using getRecaptchaApiKey_calls [of "VerifyCall req ans" cfg sv c] k by auto
  have noe: "VerifyCall req ans \<notin> set (snd (email_stage rt cfg sv sub))"
    using email_stage_calls [of "VerifyCall req ans" rt cfg sv sub] by auto
  from assms Inr k nov noe show ?thesis
    by (auto simp: handler_def calls_def recaptcha_stage_def verifyRecaptcha_def Let_def
             split: sum.splits prod.splits if_splits option.splits https_outcome.splits)
qed

text \<open>The run after the key and the token have been obtained and the response has ended.\<close>

lemma handler_verified:
  assumes "parse_body rt event = Inr sub"
    and "getRecaptchaApiKey cfg sv c = (Inr key, c1, cs)"
    and "js_prop sub ''recaptchaToken'' = Inr tok"
    and "https_request sv (assessment cfg tok ''contact_submit'' key) = ResponseEnd data"
    and "JSON_parse rt data = Inr r"
    and "interpret_response r ''contact_submit'' = Inr res"
  shows "handler rt cfg sv c event =
     (let log = cs @ [VerifyCall (assessment cfg tok ''contact_submit'' key) (ResponseEnd data)] in
      if \<not> success res then (Some (Inr (failed 400 ''reCAPTCHA verification failed'')), c1, log)
      else case js_lt rt (score res) (RECAPTCHA_SCORE_THRESHOLD rt cfg) of
             Inl e \<Rightarrow> (Some (Inr (failed 500 ''reCAPTCHA service error'')), c1, log)
           | Inr low \<Rightarrow>
               if low then (Some (Inr (failed 400 ''Submission blocked'')), c1, log)
               else (Some (Inr (fst (email_stage rt cfg sv sub))), c1,
                     log @ snd (email_stage rt cfg sv sub)))"
  using assms
  by (simp add: handler_def recaptcha_stage_def verifyRecaptcha_def Let_def
           split: sum.splits prod.splits)

lemma verified_run:
  assumes v: "VerifyCall req (ResponseEnd data) \<in> set (calls (handler rt cfg sv c event))"
    and p: "JSON_parse rt data = Inr r"
    and i: "interpret_response r ''contact_submit'' = Inr res"
  shows "\<exists>sub c1 cs.
           parse_body rt event = Inr sub \<and> sub \<noteq> JNull \<and>
           filter is_email_call cs = [] \<and>
           handler rt cfg sv c event =
             (let log = cs @ [VerifyCall req (ResponseEnd data)] in
              if \<not> success res
              then (Some (Inr (failed 400 ''reCAPTCHA verification failed'')), c1, log)
              else case js_lt rt (score res) (RECAPTCHA_SCORE_THRESHOLD rt cfg) of
                     Inl e \<Rightarrow> (Some (Inr (failed 500 ''reCAPTCHA service error'')), c1, log)
                   | Inr low \<Rightarrow>
                       if low then (Some (Inr (failed 400 ''Submission blocked'')), c1, log)
                       else (Some (Inr (fst (email_stage rt cfg sv sub))), c1,
                             log @ snd (email_stage rt cfg sv sub)))"
proof -
  from verify_call_run [OF v] obtain sub key c1 cs tok where
    a: "parse_body rt event = Inr sub"
    and b: "getRecaptchaApiKey cfg sv c = (Inr key, c1, cs)"
    and t: "js_prop sub ''recaptchaToken'' = Inr tok"
    and q: "req = assessment cfg tok ''contact_submit'' key"
    and h: "ResponseEnd data = https_request sv req"
    by blast
  have h': "https_request sv (assessment cfg tok ''contact_submit'' key) = ResponseEnd data"
    using h q by simp
  have nn: "sub \<noteq> JNull" using t by (auto simp: js_prop_def)
  have ne: "filter is_email_call cs = []" using key_calls_filter [OF b] by simp
  show ?thesis
    using handler_verified [OF a b t h' p i] a nn ne q by blast
qed

lemma interpret_response_no_error:
  assumes "r \<noteq> JNull" and "\<not> truthy (js_get r ''error'')"
  shows "interpret_response r ea =
           Inr (if \<not> tokenValid r
                then \<lparr>success = False, reason = Some (JStr ''Invalid token''), score = Some (JNum (Fin 0))\<rparr>
                else if \<not> actionMatch r ea
                then \<lparr>success = False, reason = Some (JStr ''Action mismatch''),
                      score = Some (response_score r)\<rparr>
                else \<lparr>success = True, reason = None, score = Some (response_score r)\<rparr>)"
  using assms by (simp add: interpret_response_def js_prop_def)

lemma interpret_response_result:
  "interpret_response r ea = Inr res \<Longrightarrow> r \<noteq> JNull"
  by (auto simp: interpret_response_def js_prop_def)

lemma interpret_response_success:
  assumes "interpret_response r ea = Inr res"
  shows "success res = (\<not> truthy (js_get r ''error'') \<and> tokenValid r \<and> actionMatch r ea)"
  using assms by (auto simp: interpret_response_def js_prop_def split: if_splits)

text \<open>The score that a successful result carries: line 132.\<close>

lemma interpret_response_score:
  assumes "interpret_response r ea = Inr res" and "success res"
  shows "score res =
           (if truthy (chain (js_get r ''riskAnalysis'') ''score'')
            then chain (js_get r ''riskAnalysis'') ''score'' else Some (JNum (Fin 0)))"
  using assms
  by (auto simp: interpret_response_def js_prop_def response_score_def Let_def
           split: if_splits option.splits)

section \<open>The sample runs\<close>

lemmas sample_defs =
  handler_def recaptcha_stage_def email_stage_def verifyRecaptcha_def sendEmail_def
  getRecaptchaApiKey_def parse_body_def interpret_response_def js_prop_def chain_def
  tokenValid_def actionMatch_def response_score_def js_lt_def to_number_def field_text_def
  js_to_string_def cached_def assessment_def mail_def mail_text_def newline2_def
  RECAPTCHA_SCORE_THRESHOLD_def env_or_def SUBJECT_def template_str_def
  sample_runtime_def sample_config_def strict_config_def sample_JSON_parse_def
  sample_parseFloat_def sample_ToNumber_def sample_ToString_def
  sample_submission_def sample_submission_text_def bare_submission_def opaque_submission_def
  passing_answer_def passing_text_def
  invalid_answer_def invalid_text_def low_answer_def low_text_def scoreless_answer_def
  scoreless_text_def mismatch_answer_def mismatch_text_def error_answer_def error_text_def
  string_score_answer_def string_score_text_def
  token_properties_def risk_analysis_def answering_def mail_down_def
  secrets_down_def binary_secret_def transport_down_def response_aborted_def
  sample_request_def keyless_request_def sample_mail_def bare_mail_def
  string_envelope_def object_envelope_def outcome_def cache_after_def calls_def
  failed_def succeeded_def Let_def

lemma run_passing:
  "handler sample_runtime sample_config (answering passing_text) None sample_submission =
     (Some (Inr succeeded), Some ''api-key'',
      [SecretsCall (Some ''recaptcha/key'') (Inr (Some ''api-key'')),
       VerifyCall sample_request (ResponseEnd passing_text),
       EmailCall sample_mail (Inr ())])"
  by (simp add: sample_defs)

lemma run_bare:
  "handler sample_runtime sample_config (answering string_score_text) None bare_submission =
     (Some (Inr succeeded), Some ''api-key'',
      [SecretsCall (Some ''recaptcha/key'') (Inr (Some ''api-key'')),
       VerifyCall sample_request (ResponseEnd string_score_text),
       EmailCall bare_mail (Inr ())])"
  by (simp add: sample_defs)

lemma run_opaque:
  "handler sample_runtime sample_config (answering passing_text) None opaque_submission =
     (Some (Inr (failed 500 ''Email service error'')), Some ''api-key'',
      [SecretsCall (Some ''recaptcha/key'') (Inr (Some ''api-key'')),
       VerifyCall sample_request (ResponseEnd passing_text)])"
  by (simp add: sample_defs)

lemma run_mail_down:
  "handler sample_runtime sample_config (mail_down passing_text) None sample_submission =
     (Some (Inr (failed 500 ''Email service error'')), Some ''api-key'',
      [SecretsCall (Some ''recaptcha/key'') (Inr (Some ''api-key'')),
       VerifyCall sample_request (ResponseEnd passing_text),
       EmailCall sample_mail (Inl (ServiceError ''ses''))])"
  by (simp add: sample_defs)



lemma run_error:
  "handler sample_runtime sample_config (answering error_text) None sample_submission =
     (Some (Inr (failed 400 ''reCAPTCHA verification failed'')), Some ''api-key'',
      [SecretsCall (Some ''recaptcha/key'') (Inr (Some ''api-key'')),
       VerifyCall sample_request (ResponseEnd error_text)])"
  by (simp add: sample_defs)

lemma run_low:
  "handler sample_runtime sample_config (answering low_text) None sample_submission =
     (Some (Inr (failed 400 ''Submission blocked'')), Some ''api-key'',
      [SecretsCall (Some ''recaptcha/key'') (Inr (Some ''api-key'')),
       VerifyCall sample_request (ResponseEnd low_text)])"
  by (simp add: sample_defs)


lemma run_scoreless:
  "handler sample_runtime sample_config (answering scoreless_text) None sample_submission =
     (Some (Inr (failed 400 ''Submission blocked'')), Some ''api-key'',
      [SecretsCall (Some ''recaptcha/key'') (Inr (Some ''api-key'')),
       VerifyCall sample_request (ResponseEnd scoreless_text)])"
  by (simp add: sample_defs)

lemma run_null:
  "handler sample_runtime sample_config (answering ''null'') None sample_submission =
     (Some (Inr (failed 500 ''reCAPTCHA service error'')), Some ''api-key'',
      [SecretsCall (Some ''recaptcha/key'') (Inr (Some ''api-key'')),
       VerifyCall sample_request (ResponseEnd ''null'')])"
  by (simp add: sample_defs)



lemma run_aborted:
  "handler sample_runtime sample_config response_aborted None sample_submission =
     (None, Some ''api-key'',
      [SecretsCall (Some ''recaptcha/key'') (Inr (Some ''api-key'')),
       VerifyCall sample_request NeverSettles])"
  by (simp add: sample_defs)

lemma run_secrets_down:
  "handler sample_runtime sample_config secrets_down None sample_submission =
     (Some (Inr (failed 500 ''reCAPTCHA service error'')), None,
      [SecretsCall (Some ''recaptcha/key'') (Inl (ServiceError ''secretsmanager''))])"
  by (simp add: sample_defs)



lemma parse_samples:
  "JSON_parse sample_runtime passing_text = Inr passing_answer"
  "JSON_parse sample_runtime invalid_text = Inr invalid_answer"
  "JSON_parse sample_runtime low_text = Inr low_answer"
  "JSON_parse sample_runtime scoreless_text = Inr scoreless_answer"
  "JSON_parse sample_runtime ''null'' = Inr JNull"
  "JSON_parse sample_runtime ''not json'' = Inl SyntaxError"
  "JSON_parse sample_runtime sample_submission_text = Inr sample_submission"
  "JSON_parse sample_runtime mismatch_text = Inr mismatch_answer"
  "JSON_parse sample_runtime error_text = Inr error_answer"
  "JSON_parse sample_runtime string_score_text = Inr string_score_answer"
  by (simp_all add: sample_runtime_def sample_JSON_parse_def sample_submission_text_def
        passing_text_def invalid_text_def low_text_def scoreless_text_def mismatch_text_def
        error_text_def string_score_text_def)

text \<open>The fields of the sample answers.\<close>

lemma answer_fields:
  "js_get passing_answer ''error'' = None"
  "chain (js_get passing_answer ''tokenProperties'') ''valid'' = Some (JBool True)"
  "chain (js_get passing_answer ''tokenProperties'') ''action'' = Some (JStr ''contact_submit'')"
  "chain (js_get passing_answer ''riskAnalysis'') ''score'' = Some (JNum (Fin (9 / 10)))"
  "js_get invalid_answer ''error'' = None"
  "chain (js_get invalid_answer ''tokenProperties'') ''valid'' = Some (JBool False)"
  "chain (js_get invalid_answer ''riskAnalysis'') ''score'' = Some (JNum (Fin (9 / 10)))"
  "js_get mismatch_answer ''error'' = None"
  "chain (js_get mismatch_answer ''tokenProperties'') ''valid'' = Some (JBool True)"
  "chain (js_get mismatch_answer ''tokenProperties'') ''action'' = Some (JStr ''login'')"
  "truthy (js_get error_answer ''error'')"
  "chain (js_get error_answer ''tokenProperties'') ''valid'' = Some (JBool True)"
  "chain (js_get error_answer ''tokenProperties'') ''action'' = Some (JStr ''contact_submit'')"
  "chain (js_get error_answer ''riskAnalysis'') ''score'' = Some (JNum (Fin (9 / 10)))"
  "js_get low_answer ''error'' = None"
  "chain (js_get low_answer ''tokenProperties'') ''valid'' = Some (JBool True)"
  "chain (js_get low_answer ''tokenProperties'') ''action'' = Some (JStr ''contact_submit'')"
  "chain (js_get low_answer ''riskAnalysis'') ''score'' = Some (JNum (Fin (3 / 10)))"
  "js_get string_score_answer ''error'' = None"
  "chain (js_get string_score_answer ''tokenProperties'') ''valid'' = Some (JBool True)"
  "chain (js_get string_score_answer ''tokenProperties'') ''action'' = Some (JStr ''contact_submit'')"
  "chain (js_get string_score_answer ''riskAnalysis'') ''score'' = Some (JStr ''0.9'')"
  "js_get scoreless_answer ''error'' = None"
  "js_get scoreless_answer ''riskAnalysis'' = None"
  "chain (js_get scoreless_answer ''riskAnalysis'') ''score'' = None"
  by (simp_all add: passing_answer_def invalid_answer_def mismatch_answer_def error_answer_def
        low_answer_def string_score_answer_def scoreless_answer_def token_properties_def
        risk_analysis_def chain_def)

lemma sample_thresholds:
  "parseFloat sample_runtime ''0.5'' = Fin (1 / 2)"
  "parseFloat sample_runtime ''0.95'' = Fin (19 / 20)"
  "RECAPTCHA_SCORE_THRESHOLD_ENV sample_config = None"
  "RECAPTCHA_SCORE_THRESHOLD_ENV strict_config = Some ''0.95''"
  by (simp_all add: sample_runtime_def sample_parseFloat_def sample_config_def strict_config_def)

section \<open>The successful path (claim C1)\<close>

lemma email_stage_texts:
  assumes "sub \<noteq> JNull"
    and "js_to_string rt (js_get sub ''name'') = Inr n"
    and "js_to_string rt (js_get sub ''email'') = Inr e"
    and "js_to_string rt (js_get sub ''subject'') = Inr s"
    and "js_to_string rt (js_get sub ''message'') = Inr m"
  shows "email_stage rt cfg sv sub =
           (case ses_send sv (mail cfg (mail_text n e s m)) of
              Inl err \<Rightarrow> failed 500 ''Email service error''
            | Inr u \<Rightarrow> succeeded,
            [EmailCall (mail cfg (mail_text n e s m)) (ses_send sv (mail cfg (mail_text n e s m)))])"
  using assms
  by (simp add: email_stage_def sendEmail_def field_text_def js_prop_def Let_def
        split: sum.splits)

lemma mail_written_out:
  "mail cfg (mail_text n e s m) =
     \<lparr>ToAddresses = [RECEIVER_EMAIL cfg],
      Text_Data = ''From: '' @ n @ [CHR 0x0A, CHR 0x0A] @ ''Email: '' @ e @ [CHR 0x0A, CHR 0x0A]
                    @ ''Subject: '' @ s @ [CHR 0x0A, CHR 0x0A] @ ''Message: '' @ m,
      Subject_Data = (case EMAIL_SUBJECT cfg of
                        None \<Rightarrow> ''Contact Form Submission''
                      | Some t \<Rightarrow> if t = [] then ''Contact Form Submission'' else t),
      Source = SENDER_EMAIL cfg\<rparr>"
  by (simp add: mail_def mail_text_def newline2_def SUBJECT_def env_or_def)

text \<open>A score at or above the threshold, in the sense of \<^verbatim>\<open>>=\<close>, is not below it.\<close>

lemma passing_score:
  assumes "to_number rt (chain (js_get r ''riskAnalysis'') ''score'') = Inr s"
    and "num_ge s t"
  shows "js_lt rt (Some (response_score r)) t = Inr False"
proof (cases "truthy (chain (js_get r ''riskAnalysis'') ''score'')")
  case True
  then obtain x where x: "chain (js_get r ''riskAnalysis'') ''score'' = Some x"
    by (cases "chain (js_get r ''riskAnalysis'') ''score''") auto
  with True have "response_score r = x" by (simp add: response_score_def Let_def)
  with x assms show ?thesis by (simp add: js_lt_def num_ge_def)
next
  case False
  have z: "response_score r = JNum (Fin 0)"
    using False by (auto simp: response_score_def Let_def split: option.splits)
  have "s = NaN \<or> s = Fin 0"
  proof (cases "chain (js_get r ''riskAnalysis'') ''score''")
    case None
    with assms(1) show ?thesis by (simp add: to_number_def)
  next
    case (Some x)
    with False assms(1) show ?thesis
      by (cases x) (auto simp: to_number_def split: if_splits)
  qed
  with assms(2) z show ?thesis by (auto simp: js_lt_def to_number_def num_ge_def)
qed

lemma sublist_mail_text:
  "sublist n (''From: '' @ n @ a) "
  "sublist e (''From: '' @ n @ b @ ''Email: '' @ e @ a)"
  "sublist s (''From: '' @ n @ b @ ''Email: '' @ e @ b @ ''Subject: '' @ s @ a)"
  "sublist m (''From: '' @ n @ b @ ''Email: '' @ e @ b @ ''Subject: '' @ s @ b @ ''Message: '' @ m)"
proof -
  show "sublist n (''From: '' @ n @ a)" by (rule sublist_appendI)
  show "sublist e (''From: '' @ n @ b @ ''Email: '' @ e @ a)"
    unfolding sublist_def
    by (rule exI [of _ "''From: '' @ n @ b @ ''Email: ''"], rule exI [of _ a]) simp
  show "sublist s (''From: '' @ n @ b @ ''Email: '' @ e @ b @ ''Subject: '' @ s @ a)"
    unfolding sublist_def
    by (rule exI [of _ "''From: '' @ n @ b @ ''Email: '' @ e @ b @ ''Subject: ''"],
        rule exI [of _ a]) simp
  show "sublist m (''From: '' @ n @ b @ ''Email: '' @ e @ b @ ''Subject: '' @ s @ b @ ''Message: '' @ m)"
    unfolding sublist_def
    by (rule exI [of _ "''From: '' @ n @ b @ ''Email: '' @ e @ b @ ''Subject: '' @ s @ b @ ''Message: ''"],
        rule exI [of _ "[]"]) simp
qed

text \<open>
  C1, as stated, fails: the claim promises status 200 for every payload whose verification
  response has a valid token, the matching action and a score at or above the threshold.
  At the sample submission, with the answer valid, \<^verbatim>\<open>contact_submit\<close> and 0.9 against the
  threshold 0.5, the handler answers 500 when the mail service rejects the call
  (lines 86 to 93); it answers 400 when that same answer also carries an \<^verbatim>\<open>error\<close>
  field (line 125); and it answers 500 without any mail call when the \<^verbatim>\<open>name\<close> of the
  submission is an object that cannot be converted to a string (line 161).
\<close>

theorem valid_answer_not_mailed_counterexample:
  \<open>VerifyCall sample_request (ResponseEnd passing_text)
     \<in> set (calls (handler sample_runtime sample_config (mail_down passing_text) None sample_submission)) \<and>
   JSON_parse sample_runtime passing_text = Inr passing_answer \<and>
   chain (js_get passing_answer ''tokenProperties'') ''valid'' = Some (JBool True) \<and>
   chain (js_get passing_answer ''tokenProperties'') ''action'' = Some (JStr ''contact_submit'') \<and>
   chain (js_get passing_answer ''riskAnalysis'') ''score'' = Some (JNum (Fin (9 / 10))) \<and>
   RECAPTCHA_SCORE_THRESHOLD sample_runtime sample_config = Fin (1 / 2) \<and>
   num_ge (Fin (9 / 10)) (Fin (1 / 2)) \<and>
   outcome (handler sample_runtime sample_config (mail_down passing_text) None sample_submission)
     = Some (Inr \<lparr>statusCode = 500, headers = [(''Content-Type'', ''application/json'')],
                  body = ''{"result":"Failed","reason":"Email service error"}''\<rparr>) \<and>
   VerifyCall sample_request (ResponseEnd error_text)
     \<in> set (calls (handler sample_runtime sample_config (answering error_text) None sample_submission)) \<and>
   JSON_parse sample_runtime error_text = Inr error_answer \<and>
   chain (js_get error_answer ''tokenProperties'') ''valid'' = Some (JBool True) \<and>
   chain (js_get error_answer ''tokenProperties'') ''action'' = Some (JStr ''contact_submit'') \<and>
   chain (js_get error_answer ''riskAnalysis'') ''score'' = Some (JNum (Fin (9 / 10))) \<and>
   outcome (handler sample_runtime sample_config (answering error_text) None sample_submission)
     = Some (Inr \<lparr>statusCode = 400, headers = [(''Content-Type'', ''application/json'')],
                  body = ''{"result":"Failed","reason":"reCAPTCHA verification failed"}''\<rparr>) \<and>
   VerifyCall sample_request (ResponseEnd passing_text)
     \<in> set (calls (handler sample_runtime sample_config (answering passing_text) None opaque_submission)) \<and>
   js_to_string sample_runtime (js_get opaque_submission ''name'') = Inl TypeError \<and>
   filter is_email_call
     (calls (handler sample_runtime sample_config (answering passing_text) None opaque_submission)) = [] \<and>
   outcome (handler sample_runtime sample_config (answering passing_text) None opaque_submission)
     = Some (Inr \<lparr>statusCode = 500, headers = [(''Content-Type'', ''application/json'')],
                  body = ''{"result":"Failed","reason":"Email service error"}''\<rparr>)\<close>
proof -
  have conv: "js_to_string sample_runtime (js_get opaque_submission ''name'') = Inl TypeError"
    by (simp add: opaque_submission_def js_to_string_def sample_runtime_def sample_ToString_def)
  show ?thesis
    by (simp add: conv run_mail_down run_error run_opaque parse_samples answer_fields
          threshold_text sample_thresholds calls_def outcome_def num_ge_def responses)
qed

text \<open>
  C1, amended: for every invocation that receives a verification response without error
  field, with \<^verbatim>\<open>tokenProperties.valid === true\<close>, with the action \<^verbatim>\<open>contact_submit\<close> and with
  a score that is \<^verbatim>\<open>>=\<close> the configured threshold (default \<^verbatim>\<open>parseFloat('0.5')\<close>), whose
  four fields convert to text, and whose mail call is accepted by the mail service, the
  handler returns status 200 with the body \<^verbatim>\<open>{"result":"Success"}\<close> and makes exactly one
  mail call, from the configured sender to the configured receiver with the configured
  subject; its text is the fixed format and contains the text of each of the four fields.
\<close>

theorem valid_submission_is_mailed:
  assumes \<open>VerifyCall req (ResponseEnd data) \<in> set (calls (handler rt cfg sv c event))\<close>
    and \<open>JSON_parse rt data = Inr r\<close>
    and \<open>\<not> truthy (js_get r ''error'')\<close>
    and \<open>chain (js_get r ''tokenProperties'') ''valid'' = Some (JBool True)\<close>
    and \<open>chain (js_get r ''tokenProperties'') ''action'' = Some (JStr ''contact_submit'')\<close>
    and \<open>to_number rt (chain (js_get r ''riskAnalysis'') ''score'') = Inr s\<close>
    and \<open>num_ge s (parseFloat rt (case RECAPTCHA_SCORE_THRESHOLD_ENV cfg of
                                    None \<Rightarrow> ''0.5'' | Some t \<Rightarrow> if t = [] then ''0.5'' else t))\<close>
    and \<open>parse_body rt event = Inr sub\<close>
    and \<open>js_to_string rt (js_get sub ''name'') = Inr n\<close>
    and \<open>js_to_string rt (js_get sub ''email'') = Inr e\<close>
    and \<open>js_to_string rt (js_get sub ''subject'') = Inr su\<close>
    and \<open>js_to_string rt (js_get sub ''message'') = Inr m\<close>
    and \<open>msg = ''From: '' @ n @ [CHR 0x0A, CHR 0x0A] @ ''Email: '' @ e @ [CHR 0x0A, CHR 0x0A]
                 @ ''Subject: '' @ su @ [CHR 0x0A, CHR 0x0A] @ ''Message: '' @ m\<close>
    and \<open>params =
           \<lparr>ToAddresses = [RECEIVER_EMAIL cfg], Text_Data = msg,
            Subject_Data = (case EMAIL_SUBJECT cfg of
                              None \<Rightarrow> ''Contact Form Submission''
                            | Some t \<Rightarrow> if t = [] then ''Contact Form Submission'' else t),
            Source = SENDER_EMAIL cfg\<rparr>\<close>
    and \<open>ses_send sv params = Inr ()\<close>
  shows \<open>outcome (handler rt cfg sv c event)
           = Some (Inr \<lparr>statusCode = 200, headers = [(''Content-Type'', ''application/json'')],
                        body = ''{"result":"Success"}''\<rparr>) \<and>
         filter is_email_call (calls (handler rt cfg sv c event)) = [EmailCall params (Inr ())] \<and>
         sublist n msg \<and> sublist e msg \<and> sublist su msg \<and> sublist m msg\<close>
proof -
  have tv: "tokenValid r" and am: "actionMatch r ''contact_submit''"
    using assms(4,5) by (simp_all add: tokenValid_def actionMatch_def)
  have nn: "r \<noteq> JNull" using assms(4) by (auto simp: chain_def)
  have i: "interpret_response r ''contact_submit'' =
             Inr \<lparr>success = True, reason = None, score = Some (response_score r)\<rparr>"
    using interpret_response_no_error [OF nn assms(3), of "''contact_submit''"] tv am by simp
  from verified_run [OF assms(1,2) i] assms(8) obtain c1 cs where
    sn: "sub \<noteq> JNull"
    and ne: "filter is_email_call cs = []"
    and run: "handler rt cfg sv c event =
             (let log = cs @ [VerifyCall req (ResponseEnd data)] in
              case js_lt rt (Some (response_score r)) (RECAPTCHA_SCORE_THRESHOLD rt cfg) of
                     Inl e \<Rightarrow> (Some (Inr (failed 500 ''reCAPTCHA service error'')), c1, log)
                   | Inr low \<Rightarrow>
                       if low then (Some (Inr (failed 400 ''Submission blocked'')), c1, log)
                       else (Some (Inr (fst (email_stage rt cfg sv sub))), c1,
                             log @ snd (email_stage rt cfg sv sub)))"
    by auto
  have ge: "num_ge s (RECAPTCHA_SCORE_THRESHOLD rt cfg)"
    using assms(7) by (simp add: threshold_text)
  have p: "mail cfg (mail_text n e su m) = params"
    using assms(13,14) by (simp add: mail_written_out)
  have run': "handler rt cfg sv c event =
      (Some (Inr succeeded), c1, cs @ [VerifyCall req (ResponseEnd data), EmailCall params (Inr ())])"
    using run passing_score [OF assms(6) ge]
      email_stage_texts [OF sn assms(9,10,11,12), of cfg sv] assms(15) p
    by (simp add: Let_def)
  have sl: "sublist n msg \<and> sublist e msg \<and> sublist su msg \<and> sublist m msg"
    unfolding assms(13) by (intro conjI sublist_mail_text)
  show ?thesis
    using run' ne sl by (simp add: outcome_def calls_def responses)
qed

text \<open>
  The amended C1 at two sample runs: the sample submission with the score 0.9, and a
  submission without any of the four fields, mailed as \<^verbatim>\<open>undefined\<close>, with the score given
  as the string \<^verbatim>\<open>"0.9"\<close>.
\<close>

theorem valid_submission_is_mailed_witness:
  \<open>outcome (handler sample_runtime sample_config (answering passing_text) None sample_submission)
     = Some (Inr \<lparr>statusCode = 200, headers = [(''Content-Type'', ''application/json'')],
                  body = ''{"result":"Success"}''\<rparr>) \<and>
   filter is_email_call
     (calls (handler sample_runtime sample_config (answering passing_text) None sample_submission))
     = [EmailCall
          \<lparr>ToAddresses = [Some ''owner@example.org''],
           Text_Data = ''From: Ada'' @ [CHR 0x0A, CHR 0x0A] @ ''Email: ada@example.org''
                         @ [CHR 0x0A, CHR 0x0A] @ ''Subject: Hello'' @ [CHR 0x0A, CHR 0x0A]
                         @ ''Message: Good morning'',
           Subject_Data = ''Contact Form Submission'', Source = Some ''site@example.org''\<rparr>
          (Inr ())] \<and>
   outcome (handler sample_runtime sample_config (answering string_score_text) None bare_submission)
     = Some (Inr \<lparr>statusCode = 200, headers = [(''Content-Type'', ''application/json'')],
                  body = ''{"result":"Success"}''\<rparr>) \<and>
   filter is_email_call
     (calls (handler sample_runtime sample_config (answering string_score_text) None bare_submission))
     = [EmailCall
          \<lparr>ToAddresses = [Some ''owner@example.org''],
           Text_Data = ''From: undefined'' @ [CHR 0x0A, CHR 0x0A] @ ''Email: undefined''
                         @ [CHR 0x0A, CHR 0x0A] @ ''Subject: undefined'' @ [CHR 0x0A, CHR 0x0A]
                         @ ''Message: undefined'',
           Subject_Data = ''Contact Form Submission'', Source = Some ''site@example.org''\<rparr>
          (Inr ())]\<close>
proof -
  let ?a = "handler sample_runtime sample_config (answering passing_text) None sample_submission"
  let ?b = "handler sample_runtime sample_config (answering string_score_text) None bare_submission"
  have a1: "VerifyCall sample_request (ResponseEnd passing_text) \<in> set (calls ?a)"
    by (simp add: run_passing calls_def)
  have a6: "to_number sample_runtime (chain (js_get passing_answer ''riskAnalysis'') ''score'')
              = Inr (Fin (9 / 10))"
    by (simp add: answer_fields to_number_def)
  have a7: "num_ge (Fin (9 / 10))
              (parseFloat sample_runtime
                 (case RECAPTCHA_SCORE_THRESHOLD_ENV sample_config of
                    None \<Rightarrow> ''0.5'' | Some t \<Rightarrow> if t = [] then ''0.5'' else t))"
    by (simp add: sample_thresholds num_ge_def)
  have a8: "parse_body sample_runtime sample_submission = Inr sample_submission"
    by (simp add: parse_body_def js_prop_def sample_submission_def)
  have a9: "js_to_string sample_runtime (js_get sample_submission ''name'') = Inr ''Ada''"
    "js_to_string sample_runtime (js_get sample_submission ''email'') = Inr ''ada@example.org''"
    "js_to_string sample_runtime (js_get sample_submission ''subject'') = Inr ''Hello''"
    "js_to_string sample_runtime (js_get sample_submission ''message'') = Inr ''Good morning''"
    by (simp_all add: sample_submission_def js_to_string_def)
  have a15: "ses_send (answering passing_text) p = Inr ()" for p
    by (simp add: answering_def)
  have b1: "VerifyCall sample_request (ResponseEnd string_score_text) \<in> set (calls ?b)"
    by (simp add: run_bare calls_def)
  have b6: "to_number sample_runtime (chain (js_get string_score_answer ''riskAnalysis'') ''score'')
              = Inr (Fin (9 / 10))"
    by (simp add: answer_fields to_number_def sample_runtime_def sample_ToNumber_def)
  have b8: "parse_body sample_runtime bare_submission = Inr bare_submission"
    by (simp add: parse_body_def js_prop_def bare_submission_def)
  have b9: "js_to_string sample_runtime (js_get bare_submission ''name'') = Inr ''undefined''"
    "js_to_string sample_runtime (js_get bare_submission ''email'') = Inr ''undefined''"
    "js_to_string sample_runtime (js_get bare_submission ''subject'') = Inr ''undefined''"
    "js_to_string sample_runtime (js_get bare_submission ''message'') = Inr ''undefined''"
    by (simp_all add: bare_submission_def js_to_string_def)
  have b15: "ses_send (answering string_score_text) p = Inr ()" for p
    by (simp add: answering_def)
  have e: "\<not> truthy (js_get passing_answer ''error'')"
    "\<not> truthy (js_get string_score_answer ''error'')"
    by (simp_all add: answer_fields)
  note A = valid_submission_is_mailed [OF a1 parse_samples(1) e(1) answer_fields(2,3) a6 a7 a8 a9
             refl refl a15]
  note B = valid_submission_is_mailed [OF b1 parse_samples(10) e(2) answer_fields(20,21) b6 a7 b8 b9
             refl refl b15]
  from A B show ?thesis by (simp add: sample_config_def)
qed

section \<open>The decision gate (claim C2)\<close>




section \<open>Failure of the mail service (claim C4)\<close>

lemma email_call_run:
  assumes "EmailCall p ans \<in> set (calls (handler rt cfg sv c event))"
  shows "\<exists>sub u c1 cs.
           parse_body rt event = Inr sub \<and>
           recaptcha_stage rt cfg sv c sub = (Some (Inr u), c1, cs) \<and>
           EmailCall p ans \<in> set (snd (sendEmail rt cfg sv sub))"
proof (cases "parse_body rt event")
  case (Inl e)
  with assms show ?thesis by (simp add: handler_def calls_def)
next
  case (Inr sub)
  obtain o1 c1 cs where k: "recaptcha_stage rt cfg sv c sub = (o1, c1, cs)"
    by (cases "recaptcha_stage rt cfg sv c sub") auto
  have noe: "EmailCall p ans \<notin> set cs"
    using recaptcha_stage_calls [of "EmailCall p ans" rt cfg sv c sub] k by auto
  from assms Inr k noe show ?thesis
    by (auto simp: handler_def calls_def email_stage_def
             split: sum.splits prod.splits option.splits)
qed

lemma sendEmail_answer:
  "EmailCall p ans \<in> set (snd (sendEmail rt cfg sv sub)) \<Longrightarrow>
   sendEmail rt cfg sv sub = (ans, [EmailCall p ans]) \<and> ans = ses_send sv p"
  by (auto simp: sendEmail_def Let_def split: sum.splits)

lemma recaptcha_stage_passed:
  assumes "recaptcha_stage rt cfg sv c sub = (Some (Inr u), c1, cs)"
  shows "\<exists>req data r res.
           VerifyCall req (ResponseEnd data) \<in> set cs \<and> JSON_parse rt data = Inr r \<and>
           interpret_response r ''contact_submit'' = Inr res \<and> success res \<and>
           js_lt rt (score res) (RECAPTCHA_SCORE_THRESHOLD rt cfg) = Inr False"
proof -
  from assms obtain key ks tok data r res where
    "https_request sv (assessment cfg tok ''contact_submit'' key) = ResponseEnd data"
    and "JSON_parse rt data = Inr r"
    and "interpret_response r ''contact_submit'' = Inr res"
    and "success res"
    and "js_lt rt (score res) (RECAPTCHA_SCORE_THRESHOLD rt cfg) = Inr False"
    and "cs = ks @ [VerifyCall (assessment cfg tok ''contact_submit'' key) (ResponseEnd data)]"
    by (auto simp: recaptcha_stage_def verifyRecaptcha_def Let_def
             split: sum.splits prod.splits if_splits option.splits https_outcome.splits)
  then show ?thesis by auto
qed

text \<open>
  C4: when the mail call of an invocation throws, the handler returns 500 with the reason
  \<^verbatim>\<open>Email service error\<close>. A mail call is only ever made after a successful verification:
  the run has received a response without error, with a valid token and the action
  \<^verbatim>\<open>contact_submit\<close>, and the test \<^verbatim>\<open>score < threshold\<close> was false.
\<close>

theorem email_failure_gives_500:
  assumes \<open>EmailCall p (Inl err) \<in> set (calls (handler rt cfg sv c event))\<close>
  shows \<open>outcome (handler rt cfg sv c event)
           = Some (Inr \<lparr>statusCode = 500, headers = [(''Content-Type'', ''application/json'')],
                        body = ''{"result":"Failed","reason":"Email service error"}''\<rparr>) \<and>
         (\<exists>req data r.
            VerifyCall req (ResponseEnd data) \<in> set (calls (handler rt cfg sv c event)) \<and>
            JSON_parse rt data = Inr r \<and>
            \<not> truthy (js_get r ''error'') \<and>
            chain (js_get r ''tokenProperties'') ''valid'' = Some (JBool True) \<and>
            chain (js_get r ''tokenProperties'') ''action'' = Some (JStr ''contact_submit'') \<and>
            js_lt rt (if truthy (chain (js_get r ''riskAnalysis'') ''score'')
                      then chain (js_get r ''riskAnalysis'') ''score'' else Some (JNum (Fin 0)))
              (parseFloat rt (case RECAPTCHA_SCORE_THRESHOLD_ENV cfg of
                                None \<Rightarrow> ''0.5'' | Some t \<Rightarrow> if t = [] then ''0.5'' else t))
              = Inr False)\<close>
proof -
  from email_call_run [OF assms] obtain sub u c1 cs where
    a: "parse_body rt event = Inr sub"
    and b: "recaptcha_stage rt cfg sv c sub = (Some (Inr u), c1, cs)"
    and d: "EmailCall p (Inl err) \<in> set (snd (sendEmail rt cfg sv sub))"
    by blast
  have s: "sendEmail rt cfg sv sub = (Inl err, [EmailCall p (Inl err)])"
    using sendEmail_answer [OF d] by simp
  have run: "handler rt cfg sv c event =
      (Some (Inr (failed 500 ''Email service error'')), c1, cs @ [EmailCall p (Inl err)])"
    using a b s by (simp add: handler_def email_stage_def)
  from recaptcha_stage_passed [OF b] obtain req data r res where
    v: "VerifyCall req (ResponseEnd data) \<in> set cs" "JSON_parse rt data = Inr r"
      "interpret_response r ''contact_submit'' = Inr res" "success res"
      "js_lt rt (score res) (RECAPTCHA_SCORE_THRESHOLD rt cfg) = Inr False"
    by blast
  have tv: "\<not> truthy (js_get r ''error'') \<and>
            chain (js_get r ''tokenProperties'') ''valid'' = Some (JBool True) \<and>
            chain (js_get r ''tokenProperties'') ''action'' = Some (JStr ''contact_submit'')"
    using interpret_response_success [OF v(3)] v(4) by (simp add: tokenValid_def actionMatch_def)
  have sc: "js_lt rt (if truthy (chain (js_get r ''riskAnalysis'') ''score'')
                      then chain (js_get r ''riskAnalysis'') ''score'' else Some (JNum (Fin 0)))
              (parseFloat rt (case RECAPTCHA_SCORE_THRESHOLD_ENV cfg of
                                None \<Rightarrow> ''0.5'' | Some t \<Rightarrow> if t = [] then ''0.5'' else t))
              = Inr False"
    using v(5) interpret_response_score [OF v(3,4)] by (simp add: threshold_text)
  have o: \<open>outcome (handler rt cfg sv c event)
           = Some (Inr \<lparr>statusCode = 500, headers = [(''Content-Type'', ''application/json'')],
                        body = ''{"result":"Failed","reason":"Email service error"}''\<rparr>)\<close>
    using run by (simp add: outcome_def responses)
  have m: "VerifyCall req (ResponseEnd data) \<in> set (calls (handler rt cfg sv c event))"
    using run v(1) by (simp add: calls_def)
  from o m v(2) tv sc show ?thesis by blast
qed

text \<open>C4 at the sample submission with the mail service down.\<close>

theorem email_failure_gives_500_witness:
  \<open>EmailCall sample_mail (Inl (ServiceError ''ses''))
     \<in> set (calls (handler sample_runtime sample_config (mail_down passing_text) None sample_submission)) \<and>
   outcome (handler sample_runtime sample_config (mail_down passing_text) None sample_submission)
     = Some (Inr \<lparr>statusCode = 500, headers = [(''Content-Type'', ''application/json'')],
                  body = ''{"result":"Failed","reason":"Email service error"}''\<rparr>)\<close>
proof -
  have h: "EmailCall sample_mail (Inl (ServiceError ''ses''))
     \<in> set (calls (handler sample_runtime sample_config (mail_down passing_text) None sample_submission))"
    by (simp add: run_mail_down calls_def)
  from email_failure_gives_500 [OF h] h show ?thesis by blast
qed

lemma default_threshold:
  "RECAPTCHA_SCORE_THRESHOLD_ENV cfg = None \<Longrightarrow>
   RECAPTCHA_SCORE_THRESHOLD rt cfg = parseFloat rt ''0.5''"
  by (simp add: RECAPTCHA_SCORE_THRESHOLD_def env_or_def)

section \<open>The verification result (claim C5)\<close>

text \<open>
  C5, as stated, fails: the claim says that the result carries
  \<^verbatim>\<open>response.riskAnalysis.score\<close> whether the result is a success, an invalid token or an
  action mismatch. For a response without error whose token is invalid and whose score is
  0.9, line 135 resolves with the constant score 0.
\<close>

theorem carried_score_counterexample:
  "js_get invalid_answer ''error'' = None \<and>
   chain (js_get invalid_answer ''riskAnalysis'') ''score'' = Some (JNum (Fin (9 / 10))) \<and>
   interpret_response invalid_answer ''contact_submit'' =
     Inr \<lparr>success = False, reason = Some (JStr ''Invalid token''), score = Some (JNum (Fin 0))\<rparr> \<and>
   Some (JNum (Fin 0)) \<noteq> Some (JNum (Fin (9 / 10)))"
  by (simp add: invalid_answer_def token_properties_def risk_analysis_def interpret_response_def
        js_prop_def tokenValid_def actionMatch_def chain_def)

text \<open>
  C5, amended: for every response without a truthy \<^verbatim>\<open>error\<close> field from which the stage
  computes a result, the result is a success exactly when the token is valid and the action
  matches; its score is \<^verbatim>\<open>response.riskAnalysis?.score || 0\<close> when the token is valid
  (success or action mismatch) and the constant 0 when the token is invalid; and that
  score is 0 when the field is absent or falsy.
\<close>

theorem verification_result_of_response:
  assumes "interpret_response r ea = Inr res" and "\<not> truthy (js_get r ''error'')"
  shows "success res = (tokenValid r \<and> actionMatch r ea) \<and>
         score res = Some (if tokenValid r then response_score r else JNum (Fin 0)) \<and>
         response_score r =
           (case chain (js_get r ''riskAnalysis'') ''score'' of
              None \<Rightarrow> JNum (Fin 0)
            | Some x \<Rightarrow> if truthy (Some x) then x else JNum (Fin 0))"
proof -
  have nn: "r \<noteq> JNull" using assms(1) by (rule interpret_response_result)
  have "res = (if \<not> tokenValid r
                then \<lparr>success = False, reason = Some (JStr ''Invalid token''), score = Some (JNum (Fin 0))\<rparr>
                else if \<not> actionMatch r ea
                then \<lparr>success = False, reason = Some (JStr ''Action mismatch''),
                      score = Some (response_score r)\<rparr>
                else \<lparr>success = True, reason = None, score = Some (response_score r)\<rparr>)"
    using interpret_response_no_error [OF nn assms(2), of ea] assms(1) by simp
  then show ?thesis
    by (simp add: response_score_def Let_def split: option.splits)
qed

text \<open>The amended C5 at the sample answer with a valid token, the right action and score 0.9.\<close>

theorem verification_result_of_response_witness:
  "interpret_response passing_answer ''contact_submit'' =
     Inr \<lparr>success = True, reason = None, score = Some (JNum (Fin (9 / 10)))\<rparr> \<and>
   \<not> truthy (js_get passing_answer ''error'') \<and>
   tokenValid passing_answer \<and> actionMatch passing_answer ''contact_submit'' \<and>
   response_score passing_answer = JNum (Fin (9 / 10))"
proof -
  have h1: "interpret_response passing_answer ''contact_submit'' =
     Inr \<lparr>success = True, reason = None, score = Some (JNum (Fin (9 / 10)))\<rparr>"
    by (simp add: passing_answer_def token_properties_def risk_analysis_def interpret_response_def
        js_prop_def tokenValid_def actionMatch_def chain_def response_score_def)
  have h2: "\<not> truthy (js_get passing_answer ''error'')"
    by (simp add: passing_answer_def token_properties_def risk_analysis_def)
  from verification_result_of_response [OF h1 h2] h1 h2 show ?thesis
    by (simp split: if_splits)
qed

section \<open>Totality of the verification stage (claim C10)\<close>

text \<open>
  C10, as stated, fails for one response: the text \<^verbatim>\<open>null\<close> is parseable JSON and has no
  error field, but reading \<^verbatim>\<open>response.error\<close> on it throws, the promise is rejected, and
  the handler answers 500 with \<^verbatim>\<open>reCAPTCHA service error\<close> instead of treating the missing
  \<^verbatim>\<open>tokenProperties\<close> as an invalid token.
\<close>

theorem null_response_counterexample:
  \<open>JSON_parse sample_runtime ''null'' = Inr JNull \<and>
   interpret_response JNull ''contact_submit'' = Inl TypeError \<and>
   VerifyCall sample_request (ResponseEnd ''null'')
     \<in> set (calls (handler sample_runtime sample_config (answering ''null'') None sample_submission)) \<and>
   outcome (handler sample_runtime sample_config (answering ''null'') None sample_submission)
     = Some (Inr \<lparr>statusCode = 500, headers = [(''Content-Type'', ''application/json'')],
                  body = ''{"result":"Failed","reason":"reCAPTCHA service error"}''\<rparr>)\<close>
  by (simp add: parse_samples run_null calls_def outcome_def interpret_response_def js_prop_def
        responses)

text \<open>
  C10, amended: for every parsed response other than \<^verbatim>\<open>null\<close> without a truthy error
  field, the verification stage computes a result; a missing \<^verbatim>\<open>tokenProperties\<close> gives the
  result \<^verbatim>\<open>Invalid token\<close>; a missing \<^verbatim>\<open>riskAnalysis\<close>, a missing score or the score 0
  gives the score 0; and a response with a valid token, the matching action and no score
  is answered with 400 and \<^verbatim>\<open>Submission blocked\<close> under the default threshold 0.5,
  without a mail call.
\<close>

theorem verification_total_on_fields:
  assumes \<open>r \<noteq> JNull\<close> and \<open>\<not> truthy (js_get r ''error'')\<close>
  shows \<open>(\<exists>res. interpret_response r ea = Inr res) \<and>
         (js_get r ''tokenProperties'' = None \<longrightarrow>
            interpret_response r ea =
              Inr \<lparr>success = False, reason = Some (JStr ''Invalid token''),
                   score = Some (JNum (Fin 0))\<rparr>) \<and>
         (js_get r ''riskAnalysis'' = None \<or>
          chain (js_get r ''riskAnalysis'') ''score'' = None \<or>
          chain (js_get r ''riskAnalysis'') ''score'' = Some (JNum (Fin 0)) \<longrightarrow>
            response_score r = JNum (Fin 0)) \<and>
         (tokenValid r \<and> actionMatch r ''contact_submit'' \<and>
          chain (js_get r ''riskAnalysis'') ''score'' = None \<and>
          VerifyCall req (ResponseEnd data) \<in> set (calls (handler rt cfg sv c event)) \<and>
          JSON_parse rt data = Inr r \<and>
          RECAPTCHA_SCORE_THRESHOLD_ENV cfg = None \<and> parseFloat rt ''0.5'' = Fin (1 / 2) \<longrightarrow>
            outcome (handler rt cfg sv c event)
              = Some (Inr \<lparr>statusCode = 400, headers = [(''Content-Type'', ''application/json'')],
                           body = ''{"result":"Failed","reason":"Submission blocked"}''\<rparr>) \<and>
            filter is_email_call (calls (handler rt cfg sv c event)) = [])\<close>
proof -
  note i = interpret_response_no_error [OF assms]
  have a: "\<exists>res. interpret_response r ea = Inr res" using i [of ea] by simp
  have b: "js_get r ''tokenProperties'' = None \<longrightarrow>
            interpret_response r ea =
              Inr \<lparr>success = False, reason = Some (JStr ''Invalid token''),
                   score = Some (JNum (Fin 0))\<rparr>"
    using i [of ea] by (simp add: tokenValid_def chain_def)
  have d: "js_get r ''riskAnalysis'' = None \<or>
          chain (js_get r ''riskAnalysis'') ''score'' = None \<or>
          chain (js_get r ''riskAnalysis'') ''score'' = Some (JNum (Fin 0)) \<longrightarrow>
            response_score r = JNum (Fin 0)"
    by (auto simp: response_score_def chain_def)
  have e: "outcome (handler rt cfg sv c event) = Some (Inr (failed 400 ''Submission blocked'')) \<and>
           filter is_email_call (calls (handler rt cfg sv c event)) = []"
    if h: "tokenValid r" "actionMatch r ''contact_submit''"
      "chain (js_get r ''riskAnalysis'') ''score'' = None"
      "VerifyCall req (ResponseEnd data) \<in> set (calls (handler rt cfg sv c event))"
      "JSON_parse rt data = Inr r"
      "RECAPTCHA_SCORE_THRESHOLD_ENV cfg = None" "parseFloat rt ''0.5'' = Fin (1 / 2)"
  proof -
    have sc: "response_score r = JNum (Fin 0)" using h(3) by (simp add: response_score_def)
    have ir: "interpret_response r ''contact_submit'' =
        Inr \<lparr>success = True, reason = None, score = Some (JNum (Fin 0))\<rparr>"
      using i [of "''contact_submit''"] h(1,2) sc by simp
    have lt: "js_lt rt (Some (JNum (Fin 0))) (RECAPTCHA_SCORE_THRESHOLD rt cfg) = Inr True"
      using default_threshold [OF h(6), of rt] h(7) by (simp add: js_lt_def to_number_def)
    from verified_run [OF h(4,5) ir] obtain sub c1 cs where
      ne: "filter is_email_call cs = []"
      and run: "handler rt cfg sv c event =
             (let log = cs @ [VerifyCall req (ResponseEnd data)] in
              case js_lt rt (Some (JNum (Fin 0))) (RECAPTCHA_SCORE_THRESHOLD rt cfg) of
                     Inl e \<Rightarrow> (Some (Inr (failed 500 ''reCAPTCHA service error'')), c1, log)
                   | Inr low \<Rightarrow>
                       if low then (Some (Inr (failed 400 ''Submission blocked'')), c1, log)
                       else (Some (Inr (fst (email_stage rt cfg sv sub))), c1,
                             log @ snd (email_stage rt cfg sv sub)))"
      by auto
    show ?thesis using run lt ne by (simp add: outcome_def calls_def Let_def)
  qed
  from a b d e show ?thesis unfolding responses [symmetric] by blast
qed

text \<open>
  The amended C10 at the sample answer without \<^verbatim>\<open>riskAnalysis\<close>, and at the empty object.
\<close>

theorem verification_total_on_fields_witness:
  \<open>scoreless_answer \<noteq> JNull \<and> \<not> truthy (js_get scoreless_answer ''error'') \<and>
   (\<exists>res. interpret_response scoreless_answer ''contact_submit'' = Inr res) \<and>
   response_score scoreless_answer = JNum (Fin 0) \<and>
   outcome (handler sample_runtime sample_config (answering scoreless_text) None sample_submission)
     = Some (Inr \<lparr>statusCode = 400, headers = [(''Content-Type'', ''application/json'')],
                  body = ''{"result":"Failed","reason":"Submission blocked"}''\<rparr>) \<and>
   interpret_response (JObj []) ''contact_submit'' =
     Inr \<lparr>success = False, reason = Some (JStr ''Invalid token''), score = Some (JNum (Fin 0))\<rparr>\<close>
proof -
  let ?run = "handler sample_runtime sample_config (answering scoreless_text) None sample_submission"
  have h1: "scoreless_answer \<noteq> JNull" by (simp add: scoreless_answer_def)
  have h2: "\<not> truthy (js_get scoreless_answer ''error'')"
    by (simp add: scoreless_answer_def token_properties_def)
  have h3: "tokenValid scoreless_answer" "actionMatch scoreless_answer ''contact_submit''"
    "js_get scoreless_answer ''riskAnalysis'' = None"
    "chain (js_get scoreless_answer ''riskAnalysis'') ''score'' = None"
    by (simp_all add: tokenValid_def actionMatch_def chain_def scoreless_answer_def
          token_properties_def)
  have h4: "VerifyCall sample_request (ResponseEnd scoreless_text) \<in> set (calls ?run)"
    by (simp add: run_scoreless calls_def)
  have h5: "JSON_parse sample_runtime scoreless_text = Inr scoreless_answer"
    by (simp add: parse_samples)
  have h6: "RECAPTCHA_SCORE_THRESHOLD_ENV sample_config = None"
    "parseFloat sample_runtime ''0.5'' = Fin (1 / 2)"
    by (simp_all add: sample_thresholds)
  have e1: "JObj [] \<noteq> JNull" "\<not> truthy (js_get (JObj []) ''error'')"
    "js_get (JObj []) ''tokenProperties'' = None"
    by simp_all
  from verification_total_on_fields [OF h1 h2, where ea = "''contact_submit''"
         and req = sample_request and data = scoreless_text and rt = sample_runtime
         and cfg = sample_config and sv = "answering scoreless_text" and c = None
         and event = sample_submission]
       verification_total_on_fields [OF e1(1,2), where ea = "''contact_submit''"]
       h1 h2 h3 h4 h5 h6 e1
  show ?thesis by simp
qed

section \<open>Normalisation of the payload (claim C8)\<close>

text \<open>
  C8: for every object \<open>s\<close>, an envelope whose \<^verbatim>\<open>body\<close> is a text that \<^verbatim>\<open>JSON.parse\<close> decodes
  to \<open>s\<close> and an envelope whose \<^verbatim>\<open>body\<close> is \<open>s\<close> itself are normalised to the same value
  \<open>s\<close>, and the two invocations then run alike.
\<close>

theorem envelopes_normalise_alike:
  assumes "JSON_parse rt enc = Inr (JObj kvs)"
    and "js_get e1 ''body'' = Some (JStr enc)"
    and "js_get e2 ''body'' = Some (JObj kvs)"
  shows "parse_body rt e1 = Inr (JObj kvs) \<and> parse_body rt e2 = Inr (JObj kvs) \<and>
         handler rt cfg sv c e1 = handler rt cfg sv c e2"
proof -
  have n1: "e1 \<noteq> JNull" using assms(2) by auto
  have n2: "e2 \<noteq> JNull" using assms(3) by auto
  have p1: "parse_body rt e1 = Inr (JObj kvs)"
    using n1 assms(1,2) by (simp add: parse_body_def js_prop_def)
  have p2: "parse_body rt e2 = Inr (JObj kvs)"
    using n2 assms(3) by (simp add: parse_body_def js_prop_def)
  show ?thesis using p1 p2 by (simp add: handler_def)
qed

text \<open>C8 at the sample submission, as a string body and as an object body.\<close>

theorem envelopes_normalise_alike_witness:
  "parse_body sample_runtime string_envelope = Inr sample_submission \<and>
   parse_body sample_runtime object_envelope = Inr sample_submission \<and>
   handler sample_runtime sample_config (answering passing_text) None string_envelope
     = handler sample_runtime sample_config (answering passing_text) None object_envelope"
proof -
  have h1: "JSON_parse sample_runtime sample_submission_text
              = Inr (JObj [(''name'', JStr ''Ada''), (''email'', JStr ''ada@example.org''),
                           (''subject'', JStr ''Hello''), (''message'', JStr ''Good morning''),
                           (''recaptchaToken'', JStr ''tok-1'')])"
    using parse_samples(7) by (simp add: sample_submission_def)
  have h2: "js_get string_envelope ''body'' = Some (JStr sample_submission_text)"
    by (simp add: string_envelope_def)
  have h3: "js_get object_envelope ''body''
              = Some (JObj [(''name'', JStr ''Ada''), (''email'', JStr ''ada@example.org''),
                           (''subject'', JStr ''Hello''), (''message'', JStr ''Good morning''),
                           (''recaptchaToken'', JStr ''tok-1'')])"
    by (simp add: object_envelope_def sample_submission_def)
  from envelopes_normalise_alike [OF h1 h2 h3, where cfg = sample_config
         and sv = "answering passing_text" and c = None]
  show ?thesis by (simp add: sample_submission_def)
qed

section \<open>Failure of the verification service (claim C9)\<close>

lemma secrets_call_run:
  assumes "SecretsCall sid ans \<in> set (calls (handler rt cfg sv c event))"
  shows "\<exists>sub. parse_body rt event = Inr sub \<and> \<not> cached c \<and>
           sid = RECAPTCHA_API_KEY_SECRET_NAME cfg \<and> ans = secrets_send sv sid"
proof (cases "parse_body rt event")
  case (Inl e)
  with assms show ?thesis by (simp add: handler_def calls_def)
next
  case (Inr sub)
  have noe: "SecretsCall sid ans \<notin> set (snd (email_stage rt cfg sv sub))"
    using email_stage_calls [of "SecretsCall sid ans" rt cfg sv sub] by auto
  from assms Inr noe show ?thesis
    by (auto simp: handler_def calls_def recaptcha_stage_def verifyRecaptcha_def
          getRecaptchaApiKey_def Let_def
          split: sum.splits prod.splits if_splits option.splits https_outcome.splits)
qed

lemma secrets_failure_run:
  assumes "SecretsCall sid (Inl err) \<in> set (calls (handler rt cfg sv c event))"
  shows "handler rt cfg sv c event =
           (Some (Inr (failed 500 ''reCAPTCHA service error'')), c, [SecretsCall sid (Inl err)]) \<and>
         \<not> cached c"
proof -
  from secrets_call_run [OF assms] obtain sub where
    a: "parse_body rt event = Inr sub" and b: "\<not> cached c"
    and d: "sid = RECAPTCHA_API_KEY_SECRET_NAME cfg" and e: "Inl err = secrets_send sv sid"
    by blast
  have "getRecaptchaApiKey cfg sv c = (Inl err, c, [SecretsCall sid (Inl err)])"
    using b d e [symmetric] by (simp add: getRecaptchaApiKey_cold Let_def)
  then show ?thesis using a b by (simp add: handler_def recaptcha_stage_def)
qed





section \<open>Failure of the secret store (claim C3)\<close>

lemma cold_run_fetches:
  assumes "\<not> cached c" and "parse_body rt event = Inr sub"
  shows "\<exists>rest. calls (handler rt cfg sv c event) =
           SecretsCall (RECAPTCHA_API_KEY_SECRET_NAME cfg)
             (secrets_send sv (RECAPTCHA_API_KEY_SECRET_NAME cfg)) # rest"
  using assms
  by (simp add: handler_def calls_def recaptcha_stage_def getRecaptchaApiKey_cold Let_def
        split: sum.splits prod.splits option.splits)

text \<open>
  C3: when the call of the secret store fails, the handler returns status 500 with the
  reason \<^verbatim>\<open>reCAPTCHA service error\<close>; that call is the only call of the invocation, so
  neither the verification service nor the mail service is called; the cache is left as
  it was, empty (\<^verbatim>\<open>null\<close>, \<^verbatim>\<open>undefined\<close> or the empty string); and the credential stage
  of any later invocation calls the secret store again, as the first call of every later
  invocation whose payload is read does.
\<close>

theorem secret_store_failure:
  assumes \<open>SecretsCall sid (Inl err) \<in> set (calls (handler rt cfg sv c event))\<close>
  shows \<open>outcome (handler rt cfg sv c event)
           = Some (Inr \<lparr>statusCode = 500, headers = [(''Content-Type'', ''application/json'')],
                        body = ''{"result":"Failed","reason":"reCAPTCHA service error"}''\<rparr>) \<and>
         calls (handler rt cfg sv c event) = [SecretsCall sid (Inl err)] \<and>
         filter is_verify_call (calls (handler rt cfg sv c event)) = [] \<and>
         filter is_email_call (calls (handler rt cfg sv c event)) = [] \<and>
         cache_after (handler rt cfg sv c event) = c \<and>
         (c = None \<or> c = Some []) \<and>
         snd (snd (getRecaptchaApiKey cfg sv' (cache_after (handler rt cfg sv c event))))
           = [SecretsCall sid (secrets_send sv' sid)] \<and>
         (parse_body rt' event' = Inr sub' \<longrightarrow>
            (\<exists>rest. calls (handler rt' cfg sv' (cache_after (handler rt cfg sv c event)) event')
                      = SecretsCall sid (secrets_send sv' sid) # rest))\<close>
proof -
  from secrets_call_run [OF assms] have sid: "sid = RECAPTCHA_API_KEY_SECRET_NAME cfg"
    by blast
  from secrets_failure_run [OF assms] have
    run: "handler rt cfg sv c event =
           (Some (Inr (failed 500 ''reCAPTCHA service error'')), c, [SecretsCall sid (Inl err)])"
    and cold: "\<not> cached c"
    by simp_all
  have empty: "c = None \<or> c = Some []"
    using cold by (auto simp: cached_def split: option.splits)
  have again: "snd (snd (getRecaptchaApiKey cfg sv' c)) = [SecretsCall sid (secrets_send sv' sid)]"
    using cold sid by (simp add: getRecaptchaApiKey_cold Let_def)
  have retry: "\<exists>rest. calls (handler rt' cfg sv' c event')
                      = SecretsCall sid (secrets_send sv' sid) # rest"
    if "parse_body rt' event' = Inr sub'"
    using cold_run_fetches [OF cold that, of cfg sv'] sid by simp
  show ?thesis
    using run empty again retry by (simp add: outcome_def calls_def cache_after_def responses)
qed

text \<open>
  C3 at the sample submission with the secret store down, followed by an invocation with
  all collaborators working.
\<close>

theorem secret_store_failure_witness:
  \<open>outcome (handler sample_runtime sample_config secrets_down None sample_submission)
     = Some (Inr \<lparr>statusCode = 500, headers = [(''Content-Type'', ''application/json'')],
                  body = ''{"result":"Failed","reason":"reCAPTCHA service error"}''\<rparr>) \<and>
   calls (handler sample_runtime sample_config secrets_down None sample_submission)
     = [SecretsCall (Some ''recaptcha/key'') (Inl (ServiceError ''secretsmanager''))] \<and>
   cache_after (handler sample_runtime sample_config secrets_down None sample_submission) = None \<and>
   (\<exists>rest. calls (handler sample_runtime sample_config (answering passing_text)
              (cache_after (handler sample_runtime sample_config secrets_down None sample_submission))
              sample_submission)
      = SecretsCall (Some ''recaptcha/key'')
          (secrets_send (answering passing_text) (Some ''recaptcha/key'')) # rest)\<close>
proof -
  have h: "SecretsCall (Some ''recaptcha/key'') (Inl (ServiceError ''secretsmanager''))
             \<in> set (calls (handler sample_runtime sample_config secrets_down None sample_submission))"
    by (simp add: run_secrets_down calls_def)
  have p: "parse_body sample_runtime sample_submission = Inr sample_submission"
    by (simp add: parse_body_def js_prop_def sample_submission_def)
  from secret_store_failure [OF h, where rt' = sample_runtime and event' = sample_submission
         and sub' = sample_submission and sv' = "answering passing_text"] p
  show ?thesis by auto
qed

section \<open>The response contract (claim C6)\<close>

lemma contract_failed:
  "(code = 400 \<or> code = 500) \<Longrightarrow> why \<in> set reasons \<Longrightarrow> response_contract (failed code why)"
  by (auto simp: response_contract_def failed_def failed_body_def json_headers_def list_ex_iff)

lemma contract_succeeded: "response_contract succeeded"
  by (simp add: response_contract_def succeeded_def success_body_def json_headers_def)

lemma recaptcha_stage_contract:
  "recaptcha_stage rt cfg sv c sub = (Some (Inl r), c1, cs) \<Longrightarrow> response_contract r"
  by (auto simp: recaptcha_stage_def reasons_def intro!: contract_failed
           split: sum.splits prod.splits if_splits option.splits)

lemma recaptcha_stage_waits:
  "recaptcha_stage rt cfg sv c sub = (None, c1, cs) \<Longrightarrow> list_ex never_settles cs"
  by (auto simp: recaptcha_stage_def verifyRecaptcha_def Let_def
           split: sum.splits prod.splits if_splits option.splits https_outcome.splits)

lemma email_stage_contract:
  "response_contract (fst (email_stage rt cfg sv sub))"
  by (auto simp: email_stage_def reasons_def contract_succeeded intro!: contract_failed
           split: sum.splits prod.splits)

text \<open>
  C6, as stated, fails: the claim says that the handler returns a response for every
  payload, including envelopes whose \<^verbatim>\<open>body\<close> is a string. For the envelope with the body
  \<^verbatim>\<open>not json\<close> the \<^verbatim>\<open>JSON.parse\<close> of line 38, which is outside both \<^verbatim>\<open>try\<close> blocks, throws
  and so does the handler; for the payload \<^verbatim>\<open>null\<close> the read \<^verbatim>\<open>event.body\<close> of line 37
  throws; and for the sample submission with a verification response that is lost after
  it has started, the handler never returns.
\<close>

theorem malformed_body_counterexample:
  "JSON_parse sample_runtime ''not json'' = Inl SyntaxError \<and>
   outcome (handler sample_runtime sample_config (answering passing_text) None
              (JObj [(''body'', JStr ''not json'')])) = Some (Inl SyntaxError) \<and>
   outcome (handler sample_runtime sample_config (answering passing_text) None JNull)
     = Some (Inl TypeError) \<and>
   outcome (handler sample_runtime sample_config response_aborted None sample_submission) = None"
proof -
  have a: "outcome (handler sample_runtime sample_config (answering passing_text) None
              (JObj [(''body'', JStr ''not json'')])) = Some (Inl SyntaxError)"
    by (simp add: parse_samples handler_def parse_body_def js_prop_def outcome_def)
  have b: "outcome (handler sample_runtime sample_config (answering passing_text) None JNull)
     = Some (Inl TypeError)"
    by (simp add: handler_def parse_body_def js_prop_def outcome_def)
  have d: "outcome (handler sample_runtime sample_config response_aborted None sample_submission)
     = None"
    by (simp add: run_aborted outcome_def)
  from a b d parse_samples(6) show ?thesis by blast
qed

text \<open>
  C6, amended: the handler throws exactly when reading the payload throws (a \<^verbatim>\<open>null\<close>
  payload, or a string \<^verbatim>\<open>body\<close> that \<^verbatim>\<open>JSON.parse\<close> rejects), and then with that error;
  for every other payload, in every invocation whose verification request settles, it
  returns a response with the header \<^verbatim>\<open>Content-Type: application/json\<close> that is either
  status 200 with the body \<^verbatim>\<open>{"result":"Success"}\<close>, or status 400 or 500 with the body
  \<^verbatim>\<open>{"result":"Failed","reason":r}\<close> for one of the four reasons of the handler.
\<close>

theorem handler_response_contract:
  "(case parse_body rt event of
      Inl e \<Rightarrow> outcome (handler rt cfg sv c event) = Some (Inl e)
    | Inr sub \<Rightarrow>
        \<not> list_ex never_settles (calls (handler rt cfg sv c event)) \<longrightarrow>
        returns_response (outcome (handler rt cfg sv c event)))"
proof (cases "parse_body rt event")
  case (Inl e)
  then show ?thesis by (simp add: handler_def outcome_def)
next
  case (Inr sub)
  obtain o1 c1 cs where k: "recaptcha_stage rt cfg sv c sub = (o1, c1, cs)"
    by (cases "recaptcha_stage rt cfg sv c sub") auto
  show ?thesis
  proof (cases o1)
    case None
    with k recaptcha_stage_waits [of rt cfg sv c sub c1 cs] Inr show ?thesis
      by (simp add: handler_def outcome_def calls_def)
  next
    case (Some o2)
    show ?thesis
    proof (cases o2)
      case (Inl r)
      with Some k recaptcha_stage_contract [of rt cfg sv c sub r c1 cs]
        \<open>parse_body rt event = Inr sub\<close> show ?thesis
        by (simp add: handler_def outcome_def returns_response_def)
    next
      case (Inr u)
      with Some k email_stage_contract [of rt cfg sv sub]
        \<open>parse_body rt event = Inr sub\<close> show ?thesis
        by (cases "email_stage rt cfg sv sub")
           (simp add: handler_def outcome_def returns_response_def)
    qed
  qed
qed

text \<open>
  The amended C6 at three payloads: the sample submission in an envelope with a string
  body, the envelope with the body \<^verbatim>\<open>not json\<close>, and the submission itself with a low
  score.
\<close>

theorem handler_response_contract_witness:
  \<open>outcome (handler sample_runtime sample_config (answering passing_text) None string_envelope)
     = Some (Inr \<lparr>statusCode = 200, headers = [(''Content-Type'', ''application/json'')],
                  body = ''{"result":"Success"}''\<rparr>) \<and>
   returns_response
     (outcome (handler sample_runtime sample_config (answering passing_text) None string_envelope)) \<and>
   outcome (handler sample_runtime sample_config (answering passing_text) None
              (JObj [(''body'', JStr ''not json'')])) = Some (Inl SyntaxError) \<and>
   outcome (handler sample_runtime sample_config (answering low_text) None sample_submission)
     = Some (Inr \<lparr>statusCode = 400, headers = [(''Content-Type'', ''application/json'')],
                  body = ''{"result":"Failed","reason":"Submission blocked"}''\<rparr>) \<and>
   returns_response
     (outcome (handler sample_runtime sample_config (answering low_text) None sample_submission))\<close>
proof -
  have p1: "parse_body sample_runtime string_envelope = Inr sample_submission"
    by (simp add: parse_body_def js_prop_def string_envelope_def parse_samples)
  have p2: "parse_body sample_runtime (JObj [(''body'', JStr ''not json'')]) = Inl SyntaxError"
    by (simp add: parse_body_def js_prop_def parse_samples)
  have p3: "parse_body sample_runtime sample_submission = Inr sample_submission"
    by (simp add: parse_body_def js_prop_def sample_submission_def)
  have r1: "handler sample_runtime sample_config (answering passing_text) None string_envelope
              = handler sample_runtime sample_config (answering passing_text) None sample_submission"
    using p1 p3 by (simp add: handler_def)
  have s1: "\<not> list_ex never_settles
              (calls (handler sample_runtime sample_config (answering passing_text) None string_envelope))"
    by (simp add: r1 run_passing calls_def)
  have s3: "\<not> list_ex never_settles
              (calls (handler sample_runtime sample_config (answering low_text) None sample_submission))"
    by (simp add: run_low calls_def)
  have o1: \<open>outcome (handler sample_runtime sample_config (answering passing_text) None string_envelope)
     = Some (Inr \<lparr>statusCode = 200, headers = [(''Content-Type'', ''application/json'')],
                  body = ''{"result":"Success"}''\<rparr>)\<close>
    by (simp add: r1 run_passing outcome_def responses)
  have o3: \<open>outcome (handler sample_runtime sample_config (answering low_text) None sample_submission)
     = Some (Inr \<lparr>statusCode = 400, headers = [(''Content-Type'', ''application/json'')],
                  body = ''{"result":"Failed","reason":"Submission blocked"}''\<rparr>)\<close>
    by (simp add: run_low outcome_def responses)
  note a = handler_response_contract [where rt = sample_runtime and event = string_envelope
         and cfg = sample_config and sv = "answering passing_text" and c = None]
  note b = handler_response_contract [where rt = sample_runtime
         and event = "JObj [(''body'', JStr ''not json'')]"
         and cfg = sample_config and sv = "answering passing_text" and c = None]
  note d = handler_response_contract [where rt = sample_runtime and event = sample_submission
         and cfg = sample_config and sv = "answering low_text" and c = None]
  have A: "returns_response
     (outcome (handler sample_runtime sample_config (answering passing_text) None string_envelope))"
    using a p1 s1 by simp
  have B: "outcome (handler sample_runtime sample_config (answering passing_text) None
              (JObj [(''body'', JStr ''not json'')])) = Some (Inl SyntaxError)"
    using b p2 by simp
  have D: "returns_response
     (outcome (handler sample_runtime sample_config (answering low_text) None sample_submission))"
    using d p3 s3 by simp
  from A B D o1 o3 show ?thesis by blast
qed

section \<open>The credential cache across invocations (claim C7)\<close>














end
